theory Spec2Isabelle
  imports Main "HOL-Library.AList"
begin

section \<open>JavaScript values\<close>

text \<open>
  The worker handles JSON throughout: request parameters, the records kept in the
  key-value store, response bodies. A value is one of JavaScript's JSON-compatible
  values; \<open>JUndefined\<close> is what reading a missing property yields.
\<close>

datatype json =
    JUndefined
  | JNull
  | JBool bool
  | JNum int
  | JStr string
  | JArr "json list"
  | JObj "(string \<times> json) list"

text \<open>A value caught by \<open>catch (error)\<close>: an \<open>Error\<close> with message and stack, or anything else.\<close>

datatype thrown =
    JsError (err_message: string) (err_stack: json)
  | NonError

text \<open>Truthiness, as tested by \<open>if (x)\<close>, \<open>!x\<close>, \<open>x && y\<close> and \<open>x || y\<close>.\<close>

fun truthy :: "json \<Rightarrow> bool" where
  "truthy JUndefined = False"
| "truthy JNull = False"
| "truthy (JBool b) = b"
| "truthy (JNum n) = (n \<noteq> 0)"
| "truthy (JStr s) = (s \<noteq> [])"
| "truthy (JArr xs) = True"
| "truthy (JObj fs) = True"

text \<open>Property read \<open>o.k\<close> on a value that is neither null nor undefined.\<close>

fun js_get :: "json \<Rightarrow> string \<Rightarrow> json" where
  "js_get (JObj fs) k = (case map_of fs k of Some v \<Rightarrow> v | None \<Rightarrow> JUndefined)"
| "js_get v k = JUndefined"

text \<open>\<open>x || d\<close>.\<close>

definition js_or :: "json \<Rightarrow> json \<Rightarrow> json" where
  "js_or x d = (if truthy x then x else d)"

text \<open>
  A value read from a submitted form with \<open>formData.get(name)\<close>: the string, or null when
  the field is absent.
\<close>

definition form_json :: "string option \<Rightarrow> json" where
  "form_json v = (case v of None \<Rightarrow> JNull | Some s \<Rightarrow> JStr s)"

definition present :: "string option \<Rightarrow> bool" where
  "present v = truthy (form_json v)"

section \<open>Key-value store\<close>

text \<open>
  A KV namespace: each key holds a value and the time (seconds since the epoch) at which
  it expires. The code stores \<open>JSON.stringify(v)\<close> and reads with \<open>JSON.parse\<close>; the
  store of the model keeps the parsed value. The clock \<open>now\<close> is \<open>Date.now()\<close>, in
  milliseconds.
\<close>

type_synonym kv = "string \<Rightarrow> (json \<times> int) option"

definition kv_get :: "kv \<Rightarrow> int \<Rightarrow> string \<Rightarrow> json option" where
  "kv_get s now k =
     (case s k of
        None \<Rightarrow> None
      | Some (v, expires) \<Rightarrow> if now div 1000 < expires then Some v else None)"

definition kv_put :: "kv \<Rightarrow> int \<Rightarrow> string \<Rightarrow> json \<Rightarrow> int \<Rightarrow> kv" where
  "kv_put s now k v expirationTtl = s(k \<mapsto> (v, now div 1000 + expirationTtl))"

definition kv_delete :: "kv \<Rightarrow> string \<Rightarrow> kv" where
  "kv_delete s k = s(k := None)"

section \<open>HTTP responses\<close>

datatype body =
    NullBody
  | TextBody string
  | StreamBody "string list"

record response =
  status :: nat
  headers :: "(string \<times> string) list"
  body :: body

text \<open>
  What the runtime and the collaborators of the worker provide:
  \<^item> \<open>JSON.stringify(v)\<close> and \<open>JSON.stringify(v, null, 2)\<close>, the string conversion of a
    template literal, \<open>new Date().toISOString()\<close>, the stack trace of a new \<open>Error\<close> and the
    \<open>TypeError\<close> raised by reading a property of null or undefined;
  \<^item> the SHA-256 digest in base64 (\<open>btoa(String.fromCharCode(...new Uint8Array(digest)))\<close>);
  \<^item> the compact JWS signature of the jose library (HS256), creation and check;
  \<^item> the tool catalogue \<open>MCP_TOOLS\<close>, \<open>getAccountInfo()\<close> of a client built with a given
    API key, and \<open>handleToolCall(name, arguments)\<close> of a tool handler over such a client
    (which catches every error and always returns an envelope).
\<close>

record platform =
  JSON_stringify :: "json \<Rightarrow> string"
  JSON_stringify_pretty :: "json \<Rightarrow> string"
  to_string :: "json \<Rightarrow> string"
  now_iso :: string
  error_stack :: "string \<Rightarrow> json"
  type_error :: "json \<Rightarrow> string \<Rightarrow> thrown"
  sha256_btoa :: "string \<Rightarrow> string"
  jws_sign :: "string \<Rightarrow> json \<Rightarrow> string"
  jws_verify :: "string \<Rightarrow> string \<Rightarrow> thrown + json"
  MCP_TOOLS :: "json list"
  getAccountInfo :: "json \<Rightarrow> thrown + json"
  handleToolCall :: "json \<Rightarrow> json \<Rightarrow> json \<Rightarrow> json"

definition json_response :: "platform \<Rightarrow> nat \<Rightarrow> (string \<times> string) list \<Rightarrow> json \<Rightarrow> response" where
  "json_response P st hs obj = \<lparr> status = st, headers = hs, body = TextBody (JSON_stringify P obj) \<rparr>"

section \<open>OAuth handler\<close>

subsection \<open>Tokens\<close>

text \<open>Assignment to a member of an object: \<open>{ ...obj, k: v }\<close>.\<close>

definition js_set :: "json \<Rightarrow> string \<Rightarrow> json \<Rightarrow> json" where
  "js_set obj k v = (case obj of JObj fs \<Rightarrow> JObj (AList.update k v fs) | _ \<Rightarrow> JObj [(k, v)])"

text \<open>
  Modelled from the spec: the claims handling of the jose library, which \<open>generateJWT\<close> and
  \<open>verifyToken\<close> call and which is not part of the repository. \<open>setIssuedAt()\<close> writes the
  current time in seconds into \<open>iat\<close>; \<open>setExpirationTime(span)\<close> writes into \<open>exp\<close> the
  current time plus the seconds the span stands for, a number followed by a unit
  (\<open>secs\<close>); \<open>jwtVerify\<close> checks the signature, then rejects a token whose \<open>exp\<close> is
  not a number or is not after the current time. The signature itself is the platform's.
\<close>

fun number :: "string \<Rightarrow> nat \<Rightarrow> nat" where
  "number [] acc = acc"
| "number (ch # cs) acc = number cs (10 * acc + (of_char ch - 48))"

definition secs :: "string \<Rightarrow> int" where
  "secs span =
     (let digits = takeWhile (\<lambda>ch. ch \<in> set ''0123456789'') span;
          unit = dropWhile (\<lambda>ch. ch \<in> set ''0123456789'') span
      in int (number digits 0) *
           (if unit \<in> set [''s'', ''sec'', ''secs'', ''second'', ''seconds''] then 1
            else if unit \<in> set [''m'', ''min'', ''mins'', ''minute'', ''minutes''] then 60
            else if unit \<in> set [''h'', ''hr'', ''hrs'', ''hour'', ''hours''] then 3600
            else if unit \<in> set [''d'', ''day'', ''days''] then 86400
            else if unit \<in> set [''w'', ''week'', ''weeks''] then 604800
            else 31557600))"

definition setIssuedAt :: "int \<Rightarrow> json \<Rightarrow> json" where
  "setIssuedAt now claims = js_set claims ''iat'' (JNum (now div 1000))"

definition setExpirationTime :: "string \<Rightarrow> int \<Rightarrow> json \<Rightarrow> json" where
  "setExpirationTime span now claims = js_set claims ''exp'' (JNum (now div 1000 + secs span))"

definition jwtVerify :: "platform \<Rightarrow> string \<Rightarrow> string \<Rightarrow> int \<Rightarrow> thrown + json" where
  "jwtVerify P token secret now =
     (case jws_verify P token secret of
        Inl e \<Rightarrow> Inl e
      | Inr payload \<Rightarrow>
          (case js_get payload ''exp'' of
             JUndefined \<Rightarrow> Inr payload
           | JNum e \<Rightarrow>
               if e \<le> now div 1000 then Inl (JsError ''exp claim timestamp check failed'' JUndefined)
               else Inr payload
           | _ \<Rightarrow> Inl (JsError ''exp claim must be a number'' JUndefined)))"

text \<open>
  \<open>generateJWT(payload)\<close>: \<open>new jose.SignJWT(payload).setProtectedHeader({alg:'HS256'})
  .setIssuedAt().setExpirationTime('24h').sign(secret)\<close>.
\<close>

definition generateJWT :: "platform \<Rightarrow> string \<Rightarrow> int \<Rightarrow> json \<Rightarrow> string" where
  "generateJWT P secret now payload =
     jws_sign P secret (setExpirationTime ''24h'' now (setIssuedAt now payload))"

text \<open>\<open>verifyToken\<close>: the claims, or null when \<open>jwtVerify\<close> throws.\<close>

definition verifyToken :: "platform \<Rightarrow> string \<Rightarrow> int \<Rightarrow> string \<Rightarrow> json option" where
  "verifyToken P secret now token =
     (case jwtVerify P token secret now of
        Inl e \<Rightarrow> None
      | Inr payload \<Rightarrow> Some payload)"

subsection \<open>Token endpoint\<close>

record token_form =
  grant_type :: "string option"
  code :: "string option"
  refresh_token :: "string option"
  client_id :: "string option"
  client_secret :: "string option"
  redirect_uri :: "string option"
  code_verifier :: "string option"

definition json_headers :: "(string \<times> string) list" where
  "json_headers = [(''Content-Type'', ''application/json'')]"

definition token_headers :: "(string \<times> string) list" where
  "token_headers = [(''Content-Type'', ''application/json''), (''Access-Control-Allow-Origin'', ''*'')]"

definition oauth_error :: "string \<Rightarrow> json" where
  "oauth_error e = JObj [(''error'', JStr e)]"

definition oauth_error_desc :: "string \<Rightarrow> string \<Rightarrow> json" where
  "oauth_error_desc e d = JObj [(''error'', JStr e), (''error_description'', JStr d)]"

definition token_response :: "string \<Rightarrow> string \<Rightarrow> json" where
  "token_response accessToken newRefreshToken =
     JObj [(''access_token'', JStr accessToken),
           (''token_type'', JStr ''Bearer''),
           (''expires_in'', JNum 86400),
           (''refresh_token'', JStr newRefreshToken),
           (''scope'', JStr ''marvin:read marvin:write'')]"

definition access_claims :: "string \<Rightarrow> json \<Rightarrow> int \<Rightarrow> json" where
  "access_claims clientId apiKey now =
     JObj [(''sub'', JStr clientId),
           (''amazing_marvin_api_key'', apiKey),
           (''iat'', JNum (now div 1000)),
           (''exp'', JNum (now div 1000 + 24 * 3600))]"

definition refresh_record :: "string \<Rightarrow> json \<Rightarrow> int \<Rightarrow> json" where
  "refresh_record clientId apiKey now =
     JObj [(''client_id'', JStr clientId), (''api_key'', apiKey), (''created_at'', JNum now)]"

text \<open>The base64url form of the digest: \<open>.replace(/\+/g,'-').replace(/\//g,'_').replace(/=/g,'')\<close>.\<close>

definition pkce_s256 :: "platform \<Rightarrow> string \<Rightarrow> string" where
  "pkce_s256 P codeVerifier =
     filter (\<lambda>c. c \<noteq> CHR ''='')
       (map (\<lambda>c. if c = CHR ''/'' then CHR ''_'' else c)
          (map (\<lambda>c. if c = CHR ''+'' then CHR ''-'' else c) (sha256_btoa P codeVerifier)))"

text \<open>
  \<open>handleRefreshToken(refreshToken, clientId, clientSecret)\<close>; \<open>uuid\<close> is the value
  \<open>crypto.randomUUID()\<close> returns in this call. Reading and writing the store and signing
  do not throw here, so the \<open>catch\<close> of the function (\<open>server_error\<close>, 500) has no
  branch; the client secret is received and never looked at.
\<close>

definition handleRefreshToken ::
  "platform \<Rightarrow> string \<Rightarrow> kv \<Rightarrow> int \<Rightarrow> string \<Rightarrow> string option \<Rightarrow> string option \<Rightarrow> string option
     \<Rightarrow> response \<times> kv" where
  "handleRefreshToken P secret s now uuid refreshToken clientId clientSecret =
     (if \<not> present refreshToken \<or> \<not> present clientId then
        (json_response P 400 json_headers
           (oauth_error_desc ''invalid_request'' ''Missing refresh token or client ID''), s)
      else
        (case kv_get s now (''refresh_token:'' @ the refreshToken) of
           None \<Rightarrow>
             (json_response P 400 json_headers
                (oauth_error_desc ''invalid_grant'' ''Invalid or expired refresh token''), s)
         | Some tokenData \<Rightarrow>
             if js_get tokenData ''client_id'' \<noteq> form_json clientId then
               (json_response P 400 json_headers
                  (oauth_error_desc ''invalid_grant'' ''Client ID mismatch''), s)
             else
               let accessToken =
                     generateJWT P secret now
                       (access_claims (the clientId) (js_get tokenData ''api_key'') now);
                   s1 = kv_put s now (''refresh_token:'' @ uuid)
                          (refresh_record (the clientId) (js_get tokenData ''api_key'') now)
                          (86400 * 30);
                   s2 = kv_delete s1 (''refresh_token:'' @ the refreshToken)
               in (json_response P 200 token_headers (token_response accessToken uuid), s2)))"

text \<open>
  \<open>handleTokenExchange(request)\<close>. The form is what \<open>request.formData()\<close> returns, or what
  it throws, which the \<open>catch\<close> of the function turns into \<open>server_error\<close> (500); reading
  and writing the store and signing do not throw here. \<open>uuid\<close> is the value
  \<open>crypto.randomUUID()\<close> returns in this call.
  \<open>issue_tokens\<close> is the part of the function after the PKCE and client-secret branch,
  which both of its non-failing arms fall through to: the check that the code exists, the
  redirect URI check, and the issuance.
\<close>

definition issue_tokens ::
  "platform \<Rightarrow> string \<Rightarrow> kv \<Rightarrow> int \<Rightarrow> string \<Rightarrow> token_form \<Rightarrow> json \<Rightarrow> response \<times> kv" where
  "issue_tokens P secret s now uuid f authData =
     (if \<not> truthy (js_get authData ''client_id'') then
        (json_response P 400 json_headers
           (oauth_error_desc ''invalid_grant'' ''Authorization code expired or invalid''), s)
      else if js_get authData ''redirect_uri'' \<noteq> form_json (redirect_uri f) then
        (json_response P 400 json_headers
           (oauth_error_desc ''invalid_grant'' ''Redirect URI mismatch''), s)
      else
        let accessToken =
              generateJWT P secret now
                (access_claims (the (client_id f)) (js_get authData ''api_key'') now);
            s1 = kv_put s now (''refresh_token:'' @ uuid)
                   (refresh_record (the (client_id f)) (js_get authData ''api_key'') now)
                   (86400 * 30);
            s2 = kv_delete s1 (''auth_code:'' @ the (code f))
        in (json_response P 200 token_headers (token_response accessToken uuid), s2))"

definition handleTokenExchange ::
  "platform \<Rightarrow> string \<Rightarrow> kv \<Rightarrow> int \<Rightarrow> string \<Rightarrow> thrown + token_form \<Rightarrow> response \<times> kv" where
  "handleTokenExchange P secret s now uuid formData =
     (case formData of
        Inl e \<Rightarrow>
          (json_response P 500 json_headers
             (oauth_error_desc ''server_error'' ''Token exchange failed''), s)
      | Inr f \<Rightarrow>
          if grant_type f = Some ''refresh_token'' then
            handleRefreshToken P secret s now uuid (refresh_token f) (client_id f) (client_secret f)
          else if grant_type f \<noteq> Some ''authorization_code'' \<or> \<not> present (code f)
                  \<or> \<not> present (client_id f) then
            (json_response P 400 json_headers
               (oauth_error_desc ''invalid_request'' ''Missing required parameters''), s)
          else
            (case kv_get s now (''client:'' @ the (client_id f)) of
               None \<Rightarrow> (json_response P 401 json_headers (oauth_error ''invalid_client''), s)
             | Some client \<Rightarrow>
                 let authData =
                       (case kv_get s now (''auth_code:'' @ the (code f)) of
                          None \<Rightarrow> JObj []
                        | Some d \<Rightarrow> d)
                 in
                   if truthy (js_get authData ''code_challenge'') \<and> present (code_verifier f) then
                     if js_get authData ''code_challenge_method'' = JStr ''S256''
                        \<and> JStr (pkce_s256 P (the (code_verifier f))) \<noteq> js_get authData ''code_challenge''
                     then
                       (json_response P 400 json_headers
                          (oauth_error_desc ''invalid_grant'' ''PKCE verification failed''), s)
                     else issue_tokens P secret s now uuid f authData
                   else if present (client_secret f)
                           \<and> js_get client ''client_secret'' \<noteq> form_json (client_secret f) then
                     (json_response P 401 json_headers (oauth_error ''invalid_client''), s)
                   else issue_tokens P secret s now uuid f authData))"

subsection \<open>Authorization submission\<close>

text \<open>
  \<open>handleAuthorizationSubmit(request)\<close> is where authorization codes are stored. The form's
  hidden fields carry what the authorization request had (\<open>code_challenge\<close> and
  \<open>code_challenge_method\<close> are empty strings when the request had none). \<open>probe\<close> is the
  outcome of the test request to the upstream API with the submitted key (\<open>testResponse.ok\<close>),
  \<open>redirect\<close> the URL built from the redirect URI, the code and the state (\<open>new URL\<close> throws
  on a string that is no URL). The HTML page of the failed probe is abbreviated to its
  heading.
\<close>

record authorize_form =
  af_client_id :: "string option"
  af_redirect_uri :: "string option"
  af_state :: "string option"
  af_api_key :: "string option"
  af_code_challenge :: "string option"
  af_code_challenge_method :: "string option"

definition auth_code_record :: "authorize_form \<Rightarrow> int \<Rightarrow> json" where
  "auth_code_record f now =
     JObj [(''client_id'', form_json (af_client_id f)),
           (''redirect_uri'', form_json (af_redirect_uri f)),
           (''api_key'', form_json (af_api_key f)),
           (''code_challenge'', form_json (af_code_challenge f)),
           (''code_challenge_method'', form_json (af_code_challenge_method f)),
           (''created_at'', JNum now)]"

definition handleAuthorizationSubmit ::
  "kv \<Rightarrow> int \<Rightarrow> string \<Rightarrow> (string \<Rightarrow> thrown + bool)
     \<Rightarrow> (string \<Rightarrow> string \<Rightarrow> string option \<Rightarrow> thrown + string)
     \<Rightarrow> thrown + authorize_form \<Rightarrow> response \<times> kv" where
  "handleAuthorizationSubmit s now uuid probe redirect formData =
     (case formData of
        Inl e \<Rightarrow> (\<lparr> status = 500, headers = [], body = TextBody ''Authorization failed'' \<rparr>, s)
      | Inr f \<Rightarrow>
          if \<not> present (af_client_id f) \<or> \<not> present (af_redirect_uri f) \<or> \<not> present (af_api_key f) then
            (\<lparr> status = 400, headers = [], body = TextBody ''Missing required parameters'' \<rparr>, s)
          else
            (case probe (the (af_api_key f)) of
               Inl e \<Rightarrow> (\<lparr> status = 500, headers = [], body = TextBody ''Authorization failed'' \<rparr>, s)
             | Inr ok \<Rightarrow>
                 if \<not> ok then
                   (\<lparr> status = 400, headers = [(''Content-Type'', ''text/html'')],
                      body = TextBody ''Authorization Failed'' \<rparr>, s)
                 else
                   let s1 = kv_put s now (''auth_code:'' @ uuid) (auth_code_record f now) 600
                   in (case redirect (the (af_redirect_uri f)) uuid (af_state f) of
                         Inl e \<Rightarrow>
                           (\<lparr> status = 500, headers = [], body = TextBody ''Authorization failed'' \<rparr>, s1)
                       | Inr url \<Rightarrow>
                           (\<lparr> status = 302, headers = [(''Location'', url)], body = NullBody \<rparr>, s1))))"

text \<open>
  A client registration as \<open>handleClientRegistration\<close> and the auto-registration of
  \<open>handleAuthorization\<close> store it under \<open>client:<client_id>\<close>, for 30 days.
\<close>

definition client_record :: "string \<Rightarrow> string \<Rightarrow> string list \<Rightarrow> string \<Rightarrow> int \<Rightarrow> json" where
  "client_record clientId clientSecret redirectUris clientName now =
     JObj [(''client_id'', JStr clientId),
           (''client_secret'', JStr clientSecret),
           (''redirect_uris'', JArr (map JStr redirectUris)),
           (''client_name'', JStr clientName),
           (''created_at'', JNum now)]"

text \<open>
  The phases of a token request. The handler is an \<open>async\<close> function: the worker runs a
  request up to an \<open>await\<close> and may serve other requests before it goes on, so the store
  operations of two requests can interleave. A request is split at its store operations:
  \<^item> \<open>Begin\<close>: nothing done yet; its step parses the form, tests the parameters and makes
    the first read (the client registration, or the refresh token of a refresh grant);
  \<^item> \<open>ClientRead\<close>: the client is read; its step reads the authorization code and runs
    the PKCE, client-secret, code and redirect URI checks;
  \<^item> \<open>Granted\<close>: the checks passed and the access token is signed; its step stores the new
    refresh token;
  \<^item> \<open>Stored\<close>: its step deletes the authorization code and answers;
  \<^item> \<open>Renewing\<close> and \<open>Renewed\<close>: the same two writes of a refresh grant, which stores the
    new refresh token and then deletes the old one;
  \<^item> \<open>Finished\<close>: the response is returned.
\<close>

datatype exchange =
    Begin "thrown + token_form"
  | ClientRead token_form json
  | Granted token_form json string
  | Stored token_form string
  | Renewing token_form json string
  | Renewed token_form string
  | Finished response

text \<open>
  The checks of the code and the redirect URI, as in \<open>issue_tokens\<close>, and the phase they
  lead to.
\<close>

definition code_checks :: "platform \<Rightarrow> string \<Rightarrow> int \<Rightarrow> token_form \<Rightarrow> json \<Rightarrow> exchange" where
  "code_checks P secret now f authData =
     (if \<not> truthy (js_get authData ''client_id'') then
        Finished (json_response P 400 json_headers
          (oauth_error_desc ''invalid_grant'' ''Authorization code expired or invalid''))
      else if js_get authData ''redirect_uri'' \<noteq> form_json (redirect_uri f) then
        Finished (json_response P 400 json_headers
          (oauth_error_desc ''invalid_grant'' ''Redirect URI mismatch''))
      else
        Granted f authData
          (generateJWT P secret now
             (access_claims (the (client_id f)) (js_get authData ''api_key'') now)))"

text \<open>
  One step of a request on the store as it is at that moment. Run one after the other on
  a store no other request touches, the steps of a request are \<open>handleTokenExchange\<close>
  (lemma \<open>exchange_steps_sequential\<close>).
\<close>

definition exchange_step ::
  "platform \<Rightarrow> string \<Rightarrow> int \<Rightarrow> string \<Rightarrow> exchange \<Rightarrow> kv \<Rightarrow> exchange \<times> kv" where
  "exchange_step P secret now uuid e s =
     (case e of
        Begin formData \<Rightarrow>
          (case formData of
             Inl err \<Rightarrow>
               (Finished (json_response P 500 json_headers
                  (oauth_error_desc ''server_error'' ''Token exchange failed'')), s)
           | Inr f \<Rightarrow>
               if grant_type f = Some ''refresh_token'' then
                 if \<not> present (refresh_token f) \<or> \<not> present (client_id f) then
                   (Finished (json_response P 400 json_headers
                      (oauth_error_desc ''invalid_request'' ''Missing refresh token or client ID'')), s)
                 else
                   (case kv_get s now (''refresh_token:'' @ the (refresh_token f)) of
                      None \<Rightarrow>
                        (Finished (json_response P 400 json_headers
                           (oauth_error_desc ''invalid_grant'' ''Invalid or expired refresh token'')), s)
                    | Some tokenData \<Rightarrow>
                        if js_get tokenData ''client_id'' \<noteq> form_json (client_id f) then
                          (Finished (json_response P 400 json_headers
                             (oauth_error_desc ''invalid_grant'' ''Client ID mismatch'')), s)
                        else
                          (Renewing f tokenData
                             (generateJWT P secret now
                                (access_claims (the (client_id f)) (js_get tokenData ''api_key'') now)),
                           s))
               else if grant_type f \<noteq> Some ''authorization_code'' \<or> \<not> present (code f)
                       \<or> \<not> present (client_id f) then
                 (Finished (json_response P 400 json_headers
                    (oauth_error_desc ''invalid_request'' ''Missing required parameters'')), s)
               else
                 (case kv_get s now (''client:'' @ the (client_id f)) of
                    None \<Rightarrow> (Finished (json_response P 401 json_headers (oauth_error ''invalid_client'')), s)
                  | Some client \<Rightarrow> (ClientRead f client, s)))
      | ClientRead f client \<Rightarrow>
          let authData =
                (case kv_get s now (''auth_code:'' @ the (code f)) of
                   None \<Rightarrow> JObj []
                 | Some d \<Rightarrow> d)
          in
            if truthy (js_get authData ''code_challenge'') \<and> present (code_verifier f) then
              if js_get authData ''code_challenge_method'' = JStr ''S256''
                 \<and> JStr (pkce_s256 P (the (code_verifier f))) \<noteq> js_get authData ''code_challenge''
              then
                (Finished (json_response P 400 json_headers
                   (oauth_error_desc ''invalid_grant'' ''PKCE verification failed'')), s)
              else (code_checks P secret now f authData, s)
            else if present (client_secret f)
                    \<and> js_get client ''client_secret'' \<noteq> form_json (client_secret f) then
              (Finished (json_response P 401 json_headers (oauth_error ''invalid_client'')), s)
            else (code_checks P secret now f authData, s)
      | Granted f authData accessToken \<Rightarrow>
          (Stored f accessToken,
           kv_put s now (''refresh_token:'' @ uuid)
             (refresh_record (the (client_id f)) (js_get authData ''api_key'') now) (86400 * 30))
      | Stored f accessToken \<Rightarrow>
          (Finished (json_response P 200 token_headers (token_response accessToken uuid)),
           kv_delete s (''auth_code:'' @ the (code f)))
      | Renewing f tokenData accessToken \<Rightarrow>
          (Renewed f accessToken,
           kv_put s now (''refresh_token:'' @ uuid)
             (refresh_record (the (client_id f)) (js_get tokenData ''api_key'') now) (86400 * 30))
      | Renewed f accessToken \<Rightarrow>
          (Finished (json_response P 200 token_headers (token_response accessToken uuid)),
           kv_delete s (''refresh_token:'' @ the (refresh_token f)))
      | Finished r \<Rightarrow> (Finished r, s))"

text \<open>
  The requests in flight, each with its clock, its UUID and its phase, and a schedule: the
  order in which the worker runs their steps, given by their positions in the list.
\<close>

type_synonym pending = "int \<times> string \<times> exchange"

fun run_schedule ::
  "platform \<Rightarrow> string \<Rightarrow> nat list \<Rightarrow> pending list \<times> kv \<Rightarrow> pending list \<times> kv" where
  "run_schedule P secret [] st = st"
| "run_schedule P secret (i # rest) (ps, s) =
     (if i < length ps then
        (case ps ! i of
           (now, uuid, e) \<Rightarrow>
             (case exchange_step P secret now uuid e s of
                (e', s') \<Rightarrow> run_schedule P secret rest (ps[i := (now, uuid, e')], s')))
      else run_schedule P secret rest (ps, s))"

section \<open>Protocol endpoint\<close>

text \<open>\<open>new Error(message)\<close>, and a property read that throws on null and undefined.\<close>

definition new_error :: "platform \<Rightarrow> string \<Rightarrow> thrown" where
  "new_error P msg = JsError msg (error_stack P msg)"

definition js_get_strict :: "platform \<Rightarrow> json \<Rightarrow> string \<Rightarrow> thrown + json" where
  "js_get_strict P v k =
     (case v of
        JUndefined \<Rightarrow> Inl (type_error P v k)
      | JNull \<Rightarrow> Inl (type_error P v k)
      | _ \<Rightarrow> Inr (js_get v k))"

text \<open>\<open>s.includes(sub)\<close>.\<close>

fun js_includes :: "string \<Rightarrow> string \<Rightarrow> bool" where
  "js_includes [] sub = (sub = [])"
| "js_includes (c # cs) sub = (take (length sub) (c # cs) = sub \<or> js_includes cs sub)"

definition corsHeaders :: "(string \<times> string) list" where
  "corsHeaders =
     [(''Access-Control-Allow-Origin'', ''*''),
      (''Access-Control-Allow-Methods'', ''GET, POST, OPTIONS''),
      (''Access-Control-Allow-Headers'', ''Content-Type, Authorization''),
      (''Access-Control-Max-Age'', ''86400'')]"

text \<open>\<open>{ ...cors, 'Content-Type': 'text/event-stream', 'Cache-Control': 'no-cache', 'Connection': 'keep-alive' }\<close>\<close>

definition sse_headers :: "(string \<times> string) list \<Rightarrow> (string \<times> string) list" where
  "sse_headers cors =
     AList.update ''Connection'' ''keep-alive''
       (AList.update ''Cache-Control'' ''no-cache''
          (AList.update ''Content-Type'' ''text/event-stream'' cors))"

definition buffered_headers :: "(string \<times> string) list \<Rightarrow> (string \<times> string) list" where
  "buffered_headers cors = AList.update ''Content-Type'' ''application/json'' cors"

definition text_content :: "string \<Rightarrow> json" where
  "text_content t = JObj [(''content'', JArr [JObj [(''type'', JStr ''text''), (''text'', JStr t)]])]"

text \<open>What the \<open>switch\<close> over the method does: set \<open>result\<close>, return a response, or throw.\<close>

datatype dispatched = Result json | Returned response | Threw thrown

definition marvin_test_connection :: "platform \<Rightarrow> json \<Rightarrow> json" where
  "marvin_test_connection P userInfo =
     (if \<not> truthy userInfo \<or> \<not> truthy (js_get userInfo ''amazing_marvin_api_key'') then
        text_content (JSON_stringify_pretty P
          (JObj [(''status'', JStr ''auth_required''),
                 (''message'', JStr ''MCP server connection successful, but Amazing Marvin API key is required''),
                 (''instructions'', JStr ''Please authorize this connector to access your Amazing Marvin account by clicking the authorization button in Claude''),
                 (''server'', JStr ''Amazing Marvin Remote MCP''),
                 (''version'', JStr ''1.0.0''),
                 (''timestamp'', JStr (now_iso P))]))
      else
        (case (case getAccountInfo P (js_get userInfo ''amazing_marvin_api_key'') of
                 Inl e \<Rightarrow> Inl e
               | Inr accountInfo \<Rightarrow> js_get_strict P accountInfo ''result'') of
           Inl e \<Rightarrow>
             text_content (JSON_stringify_pretty P
               (JObj [(''status'', JStr ''error''),
                      (''message'', JStr ''Failed to connect to Amazing Marvin API''),
                      (''error'', JStr (case e of JsError m st \<Rightarrow> m | NonError \<Rightarrow> ''Unknown error'')),
                      (''instructions'', JStr ''Please check your Amazing Marvin API key and try again''),
                      (''timestamp'', JStr (now_iso P))]))
         | Inr r \<Rightarrow>
             text_content (JSON_stringify_pretty P
               (JObj [(''status'', JStr ''success''),
                      (''message'', JStr ''Successfully connected to Amazing Marvin API''),
                      (''account'',
                         JObj [(''email'', js_or (js_get r ''email'') (JStr ''Unknown'')),
                               (''subscriptionType'', js_or (js_get r ''subscriptionType'') (JStr ''Unknown''))]),
                      (''timestamp'', JStr (now_iso P))]))))"

definition tools_call :: "platform \<Rightarrow> json \<Rightarrow> json \<Rightarrow> dispatched" where
  "tools_call P params userInfo =
     (if \<not> truthy (js_get params ''name'') then Threw (new_error P ''Tool name is required'')
      else if js_get params ''name'' = JStr ''test_connection''
              \<or> js_get params ''name'' = JStr ''marvin_test_connection'' then
        (if js_get params ''name'' = JStr ''test_connection'' then
           Result (text_content (JSON_stringify_pretty P
             (JObj [(''status'', JStr ''success''),
                    (''message'', JStr ''MCP server connection test successful''),
                    (''server'', JStr ''Amazing Marvin Remote MCP''),
                    (''version'', JStr ''1.0.0''),
                    (''timestamp'', JStr (now_iso P))])))
         else if js_get params ''name'' = JStr ''marvin_test_connection'' then
           Result (marvin_test_connection P userInfo)
         else
           Result (text_content (JSON_stringify_pretty P
             (JObj [(''status'', JStr ''auth_required''),
                    (''message'', JStr (''Tool '' @ [CHR 0x22] @ to_string P (js_get params ''name'') @ [CHR 0x22]
                        @ '' requires authorization to access Amazing Marvin API'')),
                    (''instructions'', JStr ''Please authorize this connector to access your Amazing Marvin account by clicking the authorization button in Claude''),
                    (''tool'', js_get params ''name''),
                    (''server'', JStr ''Amazing Marvin Remote MCP''),
                    (''version'', JStr ''1.0.0''),
                    (''timestamp'', JStr (now_iso P))]))))
      else if \<not> truthy userInfo then Threw (new_error P ''Authentication required for tool calls'')
      else
        Result (text_content (JSON_stringify_pretty P
          (handleToolCall P (js_get userInfo ''amazing_marvin_api_key'') (js_get params ''name'')
             (js_or (js_get params ''arguments'') (JObj []))))))"

definition dispatch :: "platform \<Rightarrow> json \<Rightarrow> json \<Rightarrow> json \<Rightarrow> (string \<times> string) list \<Rightarrow> bool \<Rightarrow> dispatched" where
  "dispatch P method params userInfo cors supportsSSE =
     (if method = JStr ''initialize'' then
        (case js_get_strict P params ''protocolVersion'' of
           Inl e \<Rightarrow> Threw e
         | Inr v \<Rightarrow>
             Result (JObj [(''protocolVersion'', js_or v (JStr ''2024-11-05'')),
                           (''capabilities'', JObj [(''tools'', JObj [(''listChanged'', JBool True)])]),
                           (''serverInfo'', JObj [(''name'', JStr ''Amazing Marvin Remote MCP''),
                                                  (''version'', JStr ''1.0.0'')])]))
      else if method = JStr ''tools/list'' then Result (JObj [(''tools'', JArr (MCP_TOOLS P))])
      else if method = JStr ''ping'' then Result (JObj [(''status'', JStr ''pong'')])
      else if method = JStr ''prompts/list'' then Result (JObj [(''prompts'', JArr [])])
      else if method = JStr ''resources/list'' then Result (JObj [(''resources'', JArr [])])
      else if method = JStr ''notifications/initialized'' then
        (if supportsSSE then
           Returned \<lparr> status = 200, headers = sse_headers cors, body = StreamBody [] \<rparr>
         else Returned \<lparr> status = 204, headers = cors, body = NullBody \<rparr>)
      else if method = JStr ''tools/call'' then tools_call P params userInfo
      else Threw (new_error P (''Unknown method: '' @ to_string P method)))"

definition success_response :: "json \<Rightarrow> json \<Rightarrow> json" where
  "success_response id' result = JObj [(''jsonrpc'', JStr ''2.0''), (''id'', id'), (''result'', result)]"

definition error_response :: "json \<Rightarrow> thrown \<Rightarrow> json" where
  "error_response id' e =
     JObj [(''jsonrpc'', JStr ''2.0''),
           (''id'', id'),
           (''error'',
              JObj [(''code'', JNum (- 32603)),
                    (''message'', JStr (case e of JsError m st \<Rightarrow> m | NonError \<Rightarrow> ''Internal error'')),
                    (''data'', JObj [(''stack'', (case e of JsError m st \<Rightarrow> st | NonError \<Rightarrow> JUndefined))])])]"

text \<open>The two ways a JSON-RPC response object is delivered.\<close>

definition deliver :: "platform \<Rightarrow> (string \<times> string) list \<Rightarrow> bool \<Rightarrow> json \<Rightarrow> response" where
  "deliver P cors supportsSSE obj =
     (if supportsSSE then
        \<lparr> status = 200, headers = sse_headers cors,
          body = StreamBody [''data: '' @ JSON_stringify P obj @ [CHR 0x0A, CHR 0x0A]] \<rparr>
      else
        \<lparr> status = 200, headers = buffered_headers cors, body = TextBody (JSON_stringify P obj) \<rparr>)"

text \<open>
  \<open>handleMCPRequest(mcpRequest, userInfo, env, corsHeaders, supportsSSE)\<close>. Destructuring
  \<open>mcpRequest\<close> happens before the \<open>try\<close>, so on a null request the function throws.
\<close>

definition handleMCPRequest ::
  "platform \<Rightarrow> json \<Rightarrow> json \<Rightarrow> (string \<times> string) list \<Rightarrow> bool \<Rightarrow> thrown + response" where
  "handleMCPRequest P mcpRequest userInfo cors supportsSSE =
     (case js_get_strict P mcpRequest ''method'' of
        Inl e \<Rightarrow> Inl e
      | Inr method \<Rightarrow>
          (case dispatch P method (js_get mcpRequest ''params'') userInfo cors supportsSSE of
             Result result \<Rightarrow>
               Inr (deliver P cors supportsSSE (success_response (js_get mcpRequest ''id'') result))
           | Returned r \<Rightarrow> Inr r
           | Threw e \<Rightarrow>
               Inr (deliver P cors supportsSSE (error_response (js_get mcpRequest ''id'') e))))"

text \<open>
  \<open>fetch(request, env, ctx)\<close> for the path \<open>/\<close>, which none of the routes tested before it
  matches. A request carries its method, its \<open>Accept\<close> and \<open>Authorization\<close> headers and
  what \<open>request.json()\<close> returns or throws.
\<close>

record http_request =
  http_method :: string
  accept :: "string option"
  authorization :: "string option"
  json_body :: "thrown + json"

definition server_info :: "platform \<Rightarrow> json" where
  "server_info P =
     JObj [(''name'', JStr ''Amazing Marvin Remote MCP''),
           (''version'', JStr ''1.0.0''),
           (''description'', JStr ''Remote MCP server for Amazing Marvin productivity system''),
           (''tools'', JNum (int (length (MCP_TOOLS P)))),
           (''endpoints'',
              JObj [(''mcp_discovery'', JStr ''/.well-known/oauth-authorization-server''),
                    (''oauth_register'', JStr ''/oauth/register''),
                    (''oauth_auth'', JStr ''/oauth/authorize''),
                    (''oauth_token'', JStr ''/oauth/token''),
                    (''mcp'', JStr ''/'')]),
           (''docs'', JStr ''https://github.com/your-repo/amazing-marvin-remote-mcp'')]"

definition internal_server_error :: "platform \<Rightarrow> thrown \<Rightarrow> response" where
  "internal_server_error P e =
     \<lparr> status = 500, headers = buffered_headers corsHeaders,
       body = TextBody (JSON_stringify P
         (JObj [(''error'', JStr ''Internal server error''),
                (''message'', JStr (case e of JsError m st \<Rightarrow> m | NonError \<Rightarrow> ''Unknown error''))])) \<rparr>"

definition hardcoded_userInfo :: json where
  "hardcoded_userInfo = JObj [(''amazing_marvin_api_key'', JStr ''7jRRMJUcqfAxQTFABtEMytsAf4I='')]"

definition fetch_root :: "platform \<Rightarrow> http_request \<Rightarrow> response" where
  "fetch_root P request =
     (if http_method request = ''OPTIONS'' then
        \<lparr> status = 204, headers = corsHeaders, body = NullBody \<rparr>
      else if http_method request = ''GET'' then
        \<lparr> status = 200, headers = buffered_headers corsHeaders,
          body = TextBody (JSON_stringify_pretty P (server_info P)) \<rparr>
      else if http_method request \<noteq> ''POST'' then
        \<lparr> status = 405, headers = corsHeaders, body = TextBody ''Method not allowed'' \<rparr>
      else
        let acceptHeader = (case accept request of None \<Rightarrow> [] | Some a \<Rightarrow> a);
            supportsSSE = js_includes acceptHeader ''text/event-stream''
        in (case json_body request of
              Inl e \<Rightarrow>
                \<lparr> status = 400, headers = buffered_headers corsHeaders,
                  body = TextBody (JSON_stringify P
                    (JObj [(''jsonrpc'', JStr ''2.0''),
                           (''id'', JNull),
                           (''error'', JObj [(''code'', JNum (- 32700)), (''message'', JStr ''Parse error'')])])) \<rparr>
            | Inr mcpRequest \<Rightarrow>
                (case js_get_strict P mcpRequest ''method'' of
                   Inl e \<Rightarrow> internal_server_error P e
                 | Inr m \<Rightarrow>
                     let requiresAuth = False;
                         userInfo = hardcoded_userInfo
                     in (case handleMCPRequest P mcpRequest userInfo corsHeaders supportsSSE of
                           Inl e \<Rightarrow> internal_server_error P e
                         | Inr r \<Rightarrow> r))))"

section \<open>Resource client\<close>

text \<open>
  The environment of a \<open>MarvinAPIClient\<close> during one operation: the runtime, the clock and
  the date (\<open>new Date().toISOString().split('T')[0]\<close>), the UUID of the response metadata,
  the upstream API as \<open>makeRequest(endpoint, {method, body})\<close> sees it (the parsed JSON, or
  the error thrown on a failed request), the CouchDB document store of \<open>deleteTask\<close>, and
  the reshaping of upstream records into clean ones (\<open>convertTask\<close>, \<open>convertProject\<close>, the
  payload objects and the \<open>map\<close>/\<open>filter\<close> calls of the read operations), each of which
  throws on data of the wrong shape. \<open>convertTask\<close> and \<open>convertProject\<close> return an
  object literal: the environment gives its members.
\<close>

record api_env =
  rt :: platform
  clock :: int
  today :: string
  request_uuid :: string
  makeRequest :: "string \<Rightarrow> string \<Rightarrow> json \<Rightarrow> thrown + json"
  isCouchDBConfigured :: bool
  couch_get :: "json \<Rightarrow> thrown + json"
  couch_delete :: "json \<Rightarrow> json \<Rightarrow> thrown + unit"
  task_payload :: "json \<Rightarrow> thrown + json"
  project_payload :: "json \<Rightarrow> thrown + json"
  cleanLabels :: "json \<Rightarrow> thrown + json"
  cleanCategories :: "json \<Rightarrow> thrown + json"
  cleanProjects :: "json \<Rightarrow> json \<Rightarrow> thrown + json"
  convertTask :: "json \<Rightarrow> json \<Rightarrow> json \<Rightarrow> json \<Rightarrow> thrown + (string \<times> json) list"
  convertProject :: "json \<Rightarrow> json \<Rightarrow> json \<Rightarrow> thrown + (string \<times> json) list"

text \<open>The envelope \<open>StandardResponse<T>\<close>, with \<open>metadata\<close> and \<open>summary\<close> flattened.\<close>

record 'a StandardResponse =
  data :: 'a
  source :: string
  timestamp :: string
  request_id :: string
  total_items :: "nat option"
  message :: string
  item_count :: "nat option"
  summary_status :: string
  success :: bool

definition createResponse :: "api_env \<Rightarrow> 'a \<Rightarrow> string \<Rightarrow> nat option \<Rightarrow> 'a StandardResponse" where
  "createResponse E d msg itemCount =
     \<lparr> data = d, source = ''amazing_marvin_api'', timestamp = now_iso (rt E),
       request_id = request_uuid E, total_items = itemCount, message = msg,
       item_count = itemCount, summary_status = ''success'', success = True \<rparr>"

text \<open>A non-negative number in a template literal.\<close>

function show_nat :: "nat \<Rightarrow> string" where
  "show_nat n =
     (if n < 10 then [char_of (48 + n)]
      else show_nat (n div 10) @ [char_of (48 + n mod 10)])"
  by pat_completeness auto
termination
  by (relation "measure (\<lambda>n. n)") auto

declare show_nat.simps [simp del]

definition CACHE_TTL :: int where
  "CACHE_TTL = 600"

definition getCachedOrFetch ::
  "api_env \<Rightarrow> kv \<Rightarrow> string \<Rightarrow> string \<Rightarrow> int \<Rightarrow> (thrown + json) \<times> kv" where
  "getCachedOrFetch E c cacheKey endpoint ttl =
     (case kv_get c (clock E) cacheKey of
        Some cached \<Rightarrow> (Inr cached, c)
      | None \<Rightarrow>
          (case makeRequest E endpoint ''GET'' JUndefined of
             Inl e \<Rightarrow> (Inl e, c)
           | Inr d \<Rightarrow> (Inr d, kv_put c (clock E) cacheKey d ttl)))"

text \<open>
  The read operations the writes call afterwards, each returning the \<open>data\<close> of its
  response. The branches of a \<open>Promise.all\<close> all run, so each leaves its entries in the
  cache whatever the others do; the first error in the order of the array is the one kept.
\<close>

definition getLabels :: "api_env \<Rightarrow> kv \<Rightarrow> (thrown + json) \<times> kv" where
  "getLabels E c =
     (case getCachedOrFetch E c ''labels:all'' ''/labels'' CACHE_TTL of
        (Inl e, c1) \<Rightarrow> (Inl e, c1)
      | (Inr labels, c1) \<Rightarrow> (cleanLabels E labels, c1))"

definition getCategories :: "api_env \<Rightarrow> kv \<Rightarrow> (thrown + json) \<times> kv" where
  "getCategories E c =
     (case getCachedOrFetch E c ''categories:all'' ''/categories'' CACHE_TTL of
        (Inl e, c1) \<Rightarrow> (Inl e, c1)
      | (Inr categories, c1) \<Rightarrow> (cleanCategories E categories, c1))"

definition getProjects :: "api_env \<Rightarrow> kv \<Rightarrow> (thrown + json) \<times> kv" where
  "getProjects E c =
     (case getCachedOrFetch E c ''projects:all'' ''/categories'' CACHE_TTL of
        (r1, c1) \<Rightarrow>
          (case getLabels E c1 of
             (r2, c2) \<Rightarrow>
               (case r1 of
                  Inl e \<Rightarrow> (Inl e, c2)
                | Inr categories \<Rightarrow>
                    (case r2 of
                       Inl e \<Rightarrow> (Inl e, c2)
                     | Inr labels \<Rightarrow> (cleanProjects E categories labels, c2)))))"

text \<open>\<open>invalidateCache(prefixes)\<close>.\<close>

definition invalidateCache :: "string list \<Rightarrow> string \<Rightarrow> kv \<Rightarrow> kv" where
  "invalidateCache prefixes today' c =
     (let keysToDelete =
            [''tasks:'' @ today',
             ''tasks:'' @ today' @ '':raw'',
             ''projects:all'',
             ''all_tasks:none'',
             ''completed:'' @ today']
      in fold (\<lambda>key c'. kv_delete c' key) keysToDelete c)"

subsection \<open>Write operations\<close>

definition createTask :: "api_env \<Rightarrow> kv \<Rightarrow> json \<Rightarrow> (thrown + json StandardResponse) \<times> kv" where
  "createTask E c taskData =
     (case task_payload E taskData of
        Inl e \<Rightarrow> (Inl e, c)
      | Inr payload \<Rightarrow>
          (case makeRequest E ''/addTask'' ''POST'' payload of
             Inl e \<Rightarrow> (Inl e, c)
           | Inr newTask \<Rightarrow>
               (case getProjects E (invalidateCache [''tasks:'', ''all_tasks:''] (today E) c) of
                  (r1, c1) \<Rightarrow>
                    (case getCategories E c1 of
                       (r2, c2) \<Rightarrow>
                         (case getLabels E c2 of
                            (r3, c3) \<Rightarrow>
                              (case r1 of
                                 Inl e \<Rightarrow> (Inl e, c3)
                               | Inr projects \<Rightarrow>
                                   (case r2 of
                                      Inl e \<Rightarrow> (Inl e, c3)
                                    | Inr categories \<Rightarrow>
                                        (case r3 of
                                           Inl e \<Rightarrow> (Inl e, c3)
                                         | Inr labels \<Rightarrow>
                                             (case convertTask E newTask projects categories labels of
                                                Inl e \<Rightarrow> (Inl e, c3)
                                              | Inr cleanTask \<Rightarrow>
                                                  (Inr (createResponse E (JObj cleanTask)
                                                     (''Created task: ''
                                                        @ to_string (rt E) (js_get (JObj cleanTask) ''title''))
                                                     None), c3))))))))))"

definition markTaskDone :: "api_env \<Rightarrow> kv \<Rightarrow> json \<Rightarrow> (thrown + bool StandardResponse) \<times> kv" where
  "markTaskDone E c taskId =
     (case makeRequest E ''/edit'' ''POST'' (JObj [(''itemId'', taskId), (''done'', JBool True)]) of
        Inl e \<Rightarrow> (Inl e, c)
      | Inr r \<Rightarrow>
          (Inr (createResponse E True
             (''Marked task '' @ to_string (rt E) taskId @ '' as completed'') None),
           invalidateCache [''tasks:'', ''completed:''] (today E) c))"



subsection \<open>Batch operations\<close>

text \<open>
  \<open>Promise.all(items.map(async (item) => { try { ... } catch { ... } }))\<close>: the operation
  is called on every item, and what it throws on one item is caught for that item. The
  calls are taken in the order of the array.
\<close>

fun run_items :: "('w \<Rightarrow> 'a \<Rightarrow> (thrown + 'b) \<times> 'w) \<Rightarrow> 'w \<Rightarrow> 'a list \<Rightarrow> (thrown + 'b) list \<times> 'w" where
  "run_items operation w [] = ([], w)"
| "run_items operation w (x # xs) =
     (case operation w x of
        (r, w1) \<Rightarrow> (case run_items operation w1 xs of (rs, w2) \<Rightarrow> (r # rs, w2)))"

definition batchMarkDone :: "api_env \<Rightarrow> kv \<Rightarrow> json list \<Rightarrow> bool list StandardResponse \<times> kv" where
  "batchMarkDone E c taskIds =
     (case run_items (markTaskDone E) c taskIds of
        (outcomes, c1) \<Rightarrow>
          let results = map (\<lambda>r. case r of Inl e \<Rightarrow> False | Inr v \<Rightarrow> True) outcomes;
              successCount = length (filter (\<lambda>r. r) results)
          in (createResponse E results
                (''Marked '' @ show_nat successCount @ ''/'' @ show_nat (length taskIds)
                   @ '' tasks as completed'') None, c1))"

definition batchCreateTasks :: "api_env \<Rightarrow> kv \<Rightarrow> json list \<Rightarrow> json list StandardResponse \<times> kv" where
  "batchCreateTasks E c tasksData =
     (case run_items (createTask E) c tasksData of
        (outcomes, c1) \<Rightarrow>
          let results = map (\<lambda>r. case r of Inl e \<Rightarrow> JNull | Inr result \<Rightarrow> data result) outcomes;
              successfulTasks = filter (\<lambda>t. t \<noteq> JNull) results
          in (createResponse E successfulTasks
                (''Created '' @ show_nat (length successfulTasks) @ ''/'' @ show_nat (length tasksData)
                   @ '' tasks'') None, c1))"

section \<open>Notions used in the statements\<close>

text \<open>
  The checks of \<open>handleTokenExchange\<close> that run before the authorization code is looked
  at: the request names a code and a registered client, and either the PKCE branch is
  taken (the stored code has a challenge and the request a verifier), or the request has no
  client secret, or it has the registered one.
\<close>

definition pkce_applies :: "kv \<Rightarrow> int \<Rightarrow> token_form \<Rightarrow> bool" where
  "pkce_applies s now f =
     (case kv_get s now (''auth_code:'' @ the (code f)) of
        None \<Rightarrow> False
      | Some authData \<Rightarrow> truthy (js_get authData ''code_challenge'') \<and> present (code_verifier f))"

definition client_checks_pass :: "kv \<Rightarrow> int \<Rightarrow> token_form \<Rightarrow> bool" where
  "client_checks_pass s now f =
     (present (code f) \<and> present (client_id f) \<and>
      (case kv_get s now (''client:'' @ the (client_id f)) of
         None \<Rightarrow> False
       | Some client \<Rightarrow>
           pkce_applies s now f \<or> \<not> present (client_secret f)
           \<or> js_get client ''client_secret'' = form_json (client_secret f)))"

text \<open>
  The response to an exchange whose authorization code is not in the store: the error of
  the client checks, or \<open>invalid_grant\<close> when they pass.
\<close>

definition refusal :: "platform \<Rightarrow> kv \<Rightarrow> int \<Rightarrow> token_form \<Rightarrow> response" where
  "refusal P s now f =
     (if client_checks_pass s now f then
        json_response P 400 json_headers
          (oauth_error_desc ''invalid_grant'' ''Authorization code expired or invalid'')
      else if present (client_id f) then
        json_response P 401 json_headers (oauth_error ''invalid_client'')
      else json_response P 400 json_headers
             (oauth_error_desc ''invalid_request'' ''Missing required parameters''))"

text \<open>
  The phase, after \<open>n\<close> of its steps, of an exchange that begins when its code is not in
  the store \<open>s\<close>: it has read the client, or it has been refused.
\<close>

definition later_phase :: "platform \<Rightarrow> kv \<Rightarrow> int \<Rightarrow> token_form \<Rightarrow> nat \<Rightarrow> exchange \<Rightarrow> bool" where
  "later_phase P s now f n e =
     (if n = 0 then e = Begin (Inr f)
      else e = Finished (refusal P s now f)
           \<or> (n = 1 \<and> present (client_id f) \<and>
               (case kv_get s now (''client:'' @ the (client_id f)) of
                  None \<Rightarrow> False
                | Some client \<Rightarrow> e = ClientRead f client)))"

text \<open>The keys \<open>invalidateCache\<close> deletes on a given date.\<close>

definition evicted_keys :: "string \<Rightarrow> string list" where
  "evicted_keys d =
     [''tasks:'' @ d, ''tasks:'' @ d @ '':raw'', ''projects:all'', ''all_tasks:none'', ''completed:'' @ d]"


section \<open>A concrete deployment\<close>

text \<open>
  A platform, a store and requests on which the functions can be run. The serialiser
  writes strings without escapes; the digest table holds the test vector of RFC 7636,
  appendix B. A token is the secret followed by the claims, both written in a postfix
  notation (\<open>enc\<close>): a letter pushes an empty value, the characters after it extend the
  value on top of the stack (binary digits and a sign for a number, \<open>c\<close> and a character
  for a string, \<open>:\<close> for the element of an array and \<open>;\<close> for the member of an object,
  each last first). The signature check reads a token back (\<open>unparse\<close>) and compares the
  secret.
\<close>

fun bits :: "nat \<Rightarrow> string" where
  "bits n = (if n = 0 then [] else bits (n div 2) @ [if odd n then CHR ''1'' else CHR ''0''])"

declare bits.simps [simp del]

definition enc_str :: "string \<Rightarrow> string" where
  "enc_str s = CHR ''e'' # concat (map (\<lambda>x. [CHR ''c'', x]) (rev s))"

fun enc :: "json \<Rightarrow> string" where
  "enc JUndefined = ''u''"
| "enc JNull = ''n''"
| "enc (JBool b) = (if b then ''t'' else ''f'')"
| "enc (JNum n) = ''z'' @ bits (nat \<bar>n\<bar>) @ (if n < 0 then ''-'' else [])"
| "enc (JStr s) = enc_str s"
| "enc (JArr xs) = ''a'' @ concat (map (\<lambda>x. enc x @ '':'') (rev xs))"
| "enc (JObj fs) = ''o'' @ concat (map (\<lambda>kv. enc_str (fst kv) @ enc (snd kv) @ '';'') (rev fs))"

fun unparse :: "string \<Rightarrow> json list \<Rightarrow> json list option" where
  "unparse [] st = Some st"
| "unparse (c # cs) st =
     (if c = CHR ''u'' then unparse cs (JUndefined # st)
      else if c = CHR ''n'' then unparse cs (JNull # st)
      else if c = CHR ''t'' then unparse cs (JBool True # st)
      else if c = CHR ''f'' then unparse cs (JBool False # st)
      else if c = CHR ''z'' then unparse cs (JNum 0 # st)
      else if c = CHR ''e'' then unparse cs (JStr [] # st)
      else if c = CHR ''a'' then unparse cs (JArr [] # st)
      else if c = CHR ''o'' then unparse cs (JObj [] # st)
      else if c = CHR ''0'' then
        (case st of JNum n # st' \<Rightarrow> unparse cs (JNum (2 * n) # st') | _ \<Rightarrow> None)
      else if c = CHR ''1'' then
        (case st of JNum n # st' \<Rightarrow> unparse cs (JNum (2 * n + 1) # st') | _ \<Rightarrow> None)
      else if c = CHR ''-'' then
        (case st of JNum n # st' \<Rightarrow> unparse cs (JNum (- n) # st') | _ \<Rightarrow> None)
      else if c = CHR ''c'' then
        (case cs of
           [] \<Rightarrow> None
         | x # cs' \<Rightarrow> (case st of JStr s # st' \<Rightarrow> unparse cs' (JStr (x # s) # st') | _ \<Rightarrow> None))
      else if c = CHR '':'' then
        (case st of v # JArr xs # st' \<Rightarrow> unparse cs (JArr (v # xs) # st') | _ \<Rightarrow> None)
      else if c = CHR '';'' then
        (case st of v # JStr k # JObj fs # st' \<Rightarrow> unparse cs (JObj ((k, v) # fs) # st') | _ \<Rightarrow> None)
      else None)"

definition demo_sign :: "string \<Rightarrow> json \<Rightarrow> string" where
  "demo_sign secret claims = enc_str secret @ enc claims"

definition demo_verify :: "string \<Rightarrow> string \<Rightarrow> thrown + json" where
  "demo_verify token secret =
     (case unparse token [] of
        Some [claims, JStr key] \<Rightarrow>
          if key = secret then Inr claims
          else Inl (JsError ''signature verification failed'' JUndefined)
      | _ \<Rightarrow> Inl (JsError ''Invalid Compact JWS'' JUndefined))"

fun join :: "string \<Rightarrow> string list \<Rightarrow> string" where
  "join sep [] = []"
| "join sep [x] = x"
| "join sep (x # y # ys) = x @ sep @ join sep (y # ys)"

fun demo_stringify :: "json \<Rightarrow> string" where
  "demo_stringify JUndefined = ''undefined''"
| "demo_stringify JNull = ''null''"
| "demo_stringify (JBool b) = (if b then ''true'' else ''false'')"
| "demo_stringify (JNum n) = (if n < 0 then ''-'' @ show_nat (nat (- n)) else show_nat (nat n))"
| "demo_stringify (JStr s) = [CHR 0x22] @ s @ [CHR 0x22]"
| "demo_stringify (JArr xs) = ''['' @ join '','' (map demo_stringify xs) @ '']''"
| "demo_stringify (JObj fs) =
     ''{'' @ join '','' (map (\<lambda>(k, v). [CHR 0x22] @ k @ [CHR 0x22] @ '':'' @ demo_stringify v) fs) @ ''}''"

definition T0 :: int where
  "T0 = 1700000000000"

definition demo_platform :: platform where
  "demo_platform =
     \<lparr> JSON_stringify = demo_stringify,
       JSON_stringify_pretty = demo_stringify,
       to_string = demo_stringify,
       now_iso = ''2023-11-14T22:13:20.000Z'',
       error_stack = (\<lambda>msg. JStr (''Error: '' @ msg)),
       type_error = (\<lambda>v k. JsError (''Cannot read properties of '' @ demo_stringify v
                                       @ '' (reading '' @ k @ '')'') JUndefined),
       sha256_btoa = (\<lambda>v. if v = ''dBjftJeZ4CVP-mB92K27uhbUJU1p1r_wW1gFWFOEjXk''
                            then ''E9Melhoa2OwvFrEMTJguCHaoeK1t8URWbuGJSstw+cM=''
                            else ''47DEQpj8HBSa+/TImW+5JCeuQeRkm5NMpJWZG3hSuFU=''),
       jws_sign = demo_sign,
       jws_verify = demo_verify,
       MCP_TOOLS = [],
       getAccountInfo = (\<lambda>apiKey. Inl (JsError ''Marvin API error: 401 Unauthorized'' JUndefined)),
       handleToolCall = (\<lambda>apiKey name args. JObj [(''success'', JBool True), (''key'', apiKey)]) \<rparr>"

definition demo_authorize_form :: "string \<Rightarrow> string \<Rightarrow> authorize_form" where
  "demo_authorize_form challenge challenge_method =
     \<lparr> af_client_id = Some ''client-1'',
       af_redirect_uri = Some ''https://app.example/cb'',
       af_state = Some [],
       af_api_key = Some ''marvin-key'',
       af_code_challenge = Some challenge,
       af_code_challenge_method = Some challenge_method \<rparr>"

definition demo_clients :: kv where
  "demo_clients =
     kv_put (\<lambda>k. None) T0 ''client:client-1''
       (client_record ''client-1'' ''secret-1'' [''https://app.example/cb''] ''Claude MCP Client'' T0)
       (86400 * 30)"

definition demo_store :: "string \<Rightarrow> string \<Rightarrow> kv" where
  "demo_store challenge challenge_method =
     kv_put demo_clients T0 ''auth_code:code-1''
       (auth_code_record (demo_authorize_form challenge challenge_method) T0) 600"

definition demo_exchange :: "string option \<Rightarrow> string \<Rightarrow> string option \<Rightarrow> token_form" where
  "demo_exchange secret' redirect verifier =
     \<lparr> grant_type = Some ''authorization_code'',
       code = Some ''code-1'',
       refresh_token = None,
       client_id = Some ''client-1'',
       client_secret = secret',
       redirect_uri = Some redirect,
       code_verifier = verifier \<rparr>"

definition demo_refresh_store :: kv where
  "demo_refresh_store =
     kv_put demo_clients T0 ''refresh_token:refresh-1''
       (refresh_record ''client-1'' (JStr ''marvin-key'') T0) (86400 * 30)"

text \<open>
  An upstream API that refuses to create the task titled \<open>b\<close> and to edit the item
  \<open>bad-id\<close>, and answers every other request.
\<close>

definition demo_api :: api_env where
  "demo_api =
     \<lparr> rt = demo_platform,
       clock = T0,
       today = ''2023-11-14'',
       request_uuid = ''req-1'',
       makeRequest = (\<lambda>endpoint m payload.
          if endpoint = ''/addTask'' then
            (if js_get payload ''title'' = JStr ''b''
             then Inl (JsError ''Marvin API error: 500 Internal Server Error'' JUndefined)
             else Inr (JObj [(''_id'', JStr ''t1''), (''title'', js_get payload ''title'')]))
          else if endpoint = ''/edit'' then
            (if js_get payload ''itemId'' = JStr ''bad-id''
             then Inl (JsError ''Marvin API error: 404 Not Found'' JUndefined)
             else Inr (JStr ''OK''))
          else Inr (JArr [])),
       isCouchDBConfigured = False,
       couch_get = (\<lambda>taskId. Inl (JsError ''Failed to get task for deletion: 404 Not Found'' JUndefined)),
       couch_delete = (\<lambda>taskId rev. Inr ()),
       task_payload = (\<lambda>taskData. Inr (JObj [(''title'', js_get taskData ''title'')])),
       project_payload = (\<lambda>projectData. Inr (JObj [(''title'', js_get projectData ''title'')])),
       cleanLabels = (\<lambda>labels. Inr labels),
       cleanCategories = (\<lambda>categories. Inr categories),
       cleanProjects = (\<lambda>categories labels. Inr categories),
       convertTask = (\<lambda>task projects categories labels.
          Inr [(''id'', js_get task ''_id''), (''title'', js_get task ''title''),
               (''labels'', JArr [])]),
       convertProject = (\<lambda>project allProjects labels.
          Inr [(''id'', js_get project ''_id''), (''title'', js_get project ''title''),
               (''labels'', JArr [])]) \<rparr>"

text \<open>
  A cache holding the labels, the tasks of the day and a list of projects that is not
  the one the upstream API has.
\<close>

definition demo_cache :: kv where
  "demo_cache =
     kv_put
       (kv_put (kv_put (\<lambda>k. None) T0 ''labels:all'' (JArr []) 600)
          T0 ''tasks:2023-11-14:raw'' (JArr []) 600)
       T0 ''projects:all'' (JArr [JObj [(''_id'', JStr ''p0'')]]) 600"

section \<open>Properties\<close>

subsection \<open>Store and value lemmas\<close>

lemma kv_get_put:
  "kv_get (kv_put s now k v ttl) now' k' =
     (if k' = k then (if now' div 1000 < now div 1000 + ttl then Some v else None)
      else kv_get s now' k')"
  by (simp add: kv_get_def kv_put_def)

lemma kv_get_delete:
  "kv_get (kv_delete s k) now' k' = (if k' = k then None else kv_get s now' k')"
  by (simp add: kv_get_def kv_delete_def)

lemma kv_get_absent: "s k = None \<Longrightarrow> kv_get s now k = None"
  by (simp add: kv_get_def)

lemma form_json_eq: "form_json a = form_json b \<longleftrightarrow> a = b"
  by (auto simp: form_json_def split: option.splits)

lemma present_Some: "present (Some x) \<longleftrightarrow> x \<noteq> []"
  by (simp add: present_def form_json_def)

lemma js_get_js_set: "js_get (js_set obj k v) k = v"
  by (cases obj) (simp_all add: js_set_def update_conv')

lemma js_get_js_set_other: "k' \<noteq> k \<Longrightarrow> js_get (js_set obj k v) k' = js_get obj k'"
  by (cases obj) (simp_all add: js_set_def update_conv')

lemma js_get_auth_code_record:
  "js_get (auth_code_record af t) ''redirect_uri'' = form_json (af_redirect_uri af)"
  "js_get (auth_code_record af t) ''client_id'' = form_json (af_client_id af)"
  "js_get (auth_code_record af t) ''code_challenge'' = form_json (af_code_challenge af)"
  "js_get (auth_code_record af t) ''code_challenge_method'' = form_json (af_code_challenge_method af)"
  "js_get (auth_code_record af t) ''api_key'' = form_json (af_api_key af)"
  by (simp_all add: auth_code_record_def)

lemmas token_defs =
  handleTokenExchange_def handleRefreshToken_def issue_tokens_def json_response_def Let_def

lemmas demo_defs =
  demo_exchange_def demo_store_def demo_clients_def demo_refresh_store_def demo_authorize_form_def
  auth_code_record_def client_record_def refresh_record_def T0_def

lemmas run_defs = token_defs kv_get_def kv_put_def kv_delete_def present_def form_json_def

text \<open>A successful authorization submission stores the code with what the form carried.\<close>

lemma authorization_submit_stores_code:
  assumes "present (af_client_id f)" "present (af_redirect_uri f)" "present (af_api_key f)"
    and "probe (the (af_api_key f)) = Inr True"
  shows "snd (handleAuthorizationSubmit s now uuid probe redirect (Inr f))
           = kv_put s now (''auth_code:'' @ uuid) (auth_code_record f now) 600"
  using assms by (simp add: handleAuthorizationSubmit_def Let_def split: sum.splits)

text \<open>
  The store of the concrete deployment is the store of registered clients after such a
  submission, with the challenge and the method the authorization request carried.
\<close>

lemma demo_store_issued:
  "snd (handleAuthorizationSubmit demo_clients T0 ''code-1'' (\<lambda>apiKey. Inr True)
          (\<lambda>uri c st. Inr (uri @ ''?code='' @ c))
          (Inr (demo_authorize_form challenge challenge_method)))
     = demo_store challenge challenge_method"
  by (simp add: authorization_submit_stores_code demo_store_def demo_authorize_form_def present_Some)

subsection \<open>Access tokens\<close>

text \<open>The span \<open>24h\<close> of \<open>generateJWT\<close> is 86400 seconds.\<close>

lemma secs_24h: "secs ''24h'' = 86400"
  by (simp add: secs_def)

text \<open>The claims \<open>generateJWT\<close> signs: the payload, with \<open>iat\<close> and \<open>exp\<close> overwritten.\<close>

lemma signed_claims:
  "js_get (setExpirationTime ''24h'' t (setIssuedAt t payload)) ''iat'' = JNum (t div 1000)"
  "js_get (setExpirationTime ''24h'' t (setIssuedAt t payload)) ''exp'' = JNum (t div 1000 + 86400)"
  "k \<noteq> ''iat'' \<Longrightarrow> k \<noteq> ''exp'' \<Longrightarrow>
     js_get (setExpirationTime ''24h'' t (setIssuedAt t payload)) k = js_get payload k"
  by (simp_all add: setExpirationTime_def setIssuedAt_def js_get_js_set js_get_js_set_other secs_24h)

lemma verifyToken_Some:
  assumes "verifyToken P secret now token = Some claims"
  shows "jws_verify P token secret = Inr claims
          \<and> (js_get claims ''exp'' = JUndefined
              \<or> (\<exists>e. js_get claims ''exp'' = JNum e \<and> now div 1000 < e))"
proof (cases "jws_verify P token secret")
  case (Inl e)
  with assms show ?thesis by (simp add: verifyToken_def jwtVerify_def)
next
  case (Inr payload)
  with assms show ?thesis
    by (cases "js_get payload ''exp''") (auto simp: verifyToken_def jwtVerify_def split: if_splits)
qed

lemma verifyToken_thrown:
  "jws_verify P token secret = Inl e \<Longrightarrow> verifyToken P secret now token = None"
  by (simp add: verifyToken_def jwtVerify_def)

lemma verifyToken_generated:
  assumes "jws_verify P (jws_sign P secret (setExpirationTime ''24h'' t (setIssuedAt t payload))) secret
             = Inr (setExpirationTime ''24h'' t (setIssuedAt t payload))"
  shows "verifyToken P secret now (generateJWT P secret t payload) =
          (if now div 1000 < t div 1000 + 86400
           then Some (setExpirationTime ''24h'' t (setIssuedAt t payload)) else None)"
  using assms by (simp add: verifyToken_def jwtVerify_def generateJWT_def signed_claims)

text \<open>The signature check of the concrete platform reads back what its signer wrote.\<close>

lemma unparse_bits:
  "unparse (bits n @ rest) (JNum 0 # st) = unparse rest (JNum (int n) # st)"
proof (induction n arbitrary: rest rule: bits.induct)
  case (1 n)
  show ?case
  proof (cases "n = 0")
    case True
    then show ?thesis by (simp add: bits.simps)
  next
    case False
    have "bits n = bits (n div 2) @ [if odd n then CHR ''1'' else CHR ''0'']"
      using False by (subst bits.simps) simp
    moreover have "2 * int (n div 2) + (if odd n then 1 else 0) = int n"
      by (cases "odd n") (auto elim: oddE)
    ultimately show ?thesis
      using 1 [OF False] by (cases "odd n") auto
  qed
qed

lemma unparse_chars:
  "unparse (concat (map (\<lambda>x. [CHR ''c'', x]) xs) @ rest) (JStr s # st)
     = unparse rest (JStr (rev xs @ s) # st)"
  by (induction xs arbitrary: s) simp_all

lemma unparse_enc_str: "unparse (enc_str s @ rest) st = unparse rest (JStr s # st)"
  by (simp add: enc_str_def unparse_chars)

lemma unparse_items:
  assumes "\<And>x rest st. x \<in> set xs \<Longrightarrow> unparse (enc x @ rest) st = unparse rest (x # st)"
  shows "unparse (concat (map (\<lambda>x. enc x @ '':'') xs) @ rest) (JArr t # st)
           = unparse rest (JArr (rev xs @ t) # st)"
  using assms by (induction xs arbitrary: t) simp_all

lemma unparse_members:
  assumes "\<And>k v rest st. (k, v) \<in> set fs \<Longrightarrow> unparse (enc v @ rest) st = unparse rest (v # st)"
  shows "unparse (concat (map (\<lambda>kv. enc_str (fst kv) @ enc (snd kv) @ '';'') fs) @ rest) (JObj t # st)
           = unparse rest (JObj (rev fs @ t) # st)"
  using assms
proof (induction fs arbitrary: t)
  case Nil
  then show ?case by simp
next
  case (Cons a fs)
  obtain k v where a: "a = (k, v)" by (cases a)
  have head: "unparse (enc v @ rest') st' = unparse rest' (v # st')" for rest' st'
    using Cons.prems [of k v] a by simp
  have tail: "unparse (concat (map (\<lambda>kv. enc_str (fst kv) @ enc (snd kv) @ '';'') fs) @ rest)
                (JObj ((k, v) # t) # st)
              = unparse rest (JObj (rev fs @ (k, v) # t) # st)"
  proof (rule Cons.IH)
    fix k' v' rest' st'
    assume "(k', v') \<in> set fs"
    then show "unparse (enc v' @ rest') st' = unparse rest' (v' # st')"
      using Cons.prems [of k' v'] by simp
  qed
  show ?case
    by (simp add: a unparse_enc_str head tail)
qed

lemma unparse_enc: "unparse (enc v @ rest) st = unparse rest (v # st)"
proof (induction v arbitrary: rest st)
  case (JNum n)
  show ?case
  proof (cases "n < 0")
    case True
    then show ?thesis by (simp add: unparse_bits)
  next
    case False
    then show ?thesis by (simp add: unparse_bits)
  qed
next
  case (JStr s)
  show ?case by (simp add: unparse_enc_str)
next
  case (JArr xs)
  have "unparse (enc x @ rest') st' = unparse rest' (x # st')" if "x \<in> set (rev xs)" for x rest' st'
    using JArr that by simp
  then have "unparse (concat (map (\<lambda>x. enc x @ '':'') (rev xs)) @ rest) (JArr [] # st)
               = unparse rest (JArr (rev (rev xs) @ []) # st)"
    by (rule unparse_items)
  then show ?case by simp
next
  case (JObj fs)
  have "unparse (enc v @ rest') st' = unparse rest' (v # st')" if "(k, v) \<in> set (rev fs)" for k v rest' st'
    using JObj [of "(k, v)" v] that by simp
  then have "unparse (concat (map (\<lambda>kv. enc_str (fst kv) @ enc (snd kv) @ '';'') (rev fs)) @ rest)
               (JObj [] # st)
               = unparse rest (JObj (rev (rev fs) @ []) # st)"
    by (rule unparse_members)
  then show ?case by simp
qed simp_all

lemma unparse_demo_sign: "unparse (demo_sign secret claims) [] = Some [claims, JStr secret]"
  using unparse_enc [of claims "[]" "[JStr secret]"] unparse_enc_str [of secret "enc claims" "[]"]
  by (simp add: demo_sign_def)

lemma demo_verify_sign:
  "demo_verify (demo_sign key claims) secret =
     (if key = secret then Inr claims else Inl (JsError ''signature verification failed'' JUndefined))"
  by (simp add: demo_verify_def unparse_demo_sign)

lemma demo_platform_signs:
  "jws_verify demo_platform (jws_sign demo_platform key claims) secret =
     (if key = secret then Inr claims else Inl (JsError ''signature verification failed'' JUndefined))"
  by (simp add: demo_platform_def demo_verify_sign)

text \<open>
  C7. On a platform whose signature check returns the claims that were signed with the
  same secret: the access token \<open>generateJWT\<close> issues at time \<open>t\<close> carries the payload with
  \<open>iat\<close> the second of issue and \<open>exp\<close> 24 hours (86400 seconds) later, whatever the
  payload had there, and \<open>verifyToken\<close> returns these claims before the second \<open>exp\<close> and
  null from then on, the signature being correct all along. On every input \<open>verifyToken\<close>
  returns null or claims and never throws: whatever the signature check throws becomes
  null, and claims are returned only for a token that passed the signature check and
  whose \<open>exp\<close>, if any, lies in the future.
\<close>

theorem access_token_expiry:
  assumes "\<And>claims. jws_verify P (jws_sign P secret claims) secret = Inr claims"
  shows "(\<exists>claims. jws_verify P (generateJWT P secret t payload) secret = Inr claims
            \<and> js_get claims ''iat'' = JNum (t div 1000)
            \<and> js_get claims ''exp'' = JNum (t div 1000 + 86400)
            \<and> (\<forall>k. k \<noteq> ''iat'' \<and> k \<noteq> ''exp'' \<longrightarrow> js_get claims k = js_get payload k)
            \<and> (now div 1000 < t div 1000 + 86400 \<longrightarrow>
                  verifyToken P secret now (generateJWT P secret t payload) = Some claims)
            \<and> (t div 1000 + 86400 \<le> now div 1000 \<longrightarrow>
                  verifyToken P secret now (generateJWT P secret t payload) = None))
    \<and> (\<forall>token e. jws_verify P token secret = Inl e \<longrightarrow> verifyToken P secret now token = None)
    \<and> (\<forall>token claims. verifyToken P secret now token = Some claims \<longrightarrow>
          jws_verify P token secret = Inr claims
          \<and> (js_get claims ''exp'' = JUndefined
              \<or> (\<exists>e. js_get claims ''exp'' = JNum e \<and> now div 1000 < e)))"
proof (intro conjI allI impI)
  let ?claims = "setExpirationTime ''24h'' t (setIssuedAt t payload)"
  have signed: "jws_verify P (generateJWT P secret t payload) secret = Inr ?claims"
    using assms [of ?claims] by (simp add: generateJWT_def)
  have verified: "verifyToken P secret now (generateJWT P secret t payload) =
          (if now div 1000 < t div 1000 + 86400 then Some ?claims else None)"
    using assms [of ?claims] by (rule verifyToken_generated)
  have "jws_verify P (generateJWT P secret t payload) secret = Inr ?claims
            \<and> js_get ?claims ''iat'' = JNum (t div 1000)
            \<and> js_get ?claims ''exp'' = JNum (t div 1000 + 86400)
            \<and> (\<forall>k. k \<noteq> ''iat'' \<and> k \<noteq> ''exp'' \<longrightarrow> js_get ?claims k = js_get payload k)
            \<and> (now div 1000 < t div 1000 + 86400 \<longrightarrow>
                  verifyToken P secret now (generateJWT P secret t payload) = Some ?claims)
            \<and> (t div 1000 + 86400 \<le> now div 1000 \<longrightarrow>
                  verifyToken P secret now (generateJWT P secret t payload) = None)"
    using signed verified by (simp add: signed_claims)
  then show "\<exists>claims. jws_verify P (generateJWT P secret t payload) secret = Inr claims
            \<and> js_get claims ''iat'' = JNum (t div 1000)
            \<and> js_get claims ''exp'' = JNum (t div 1000 + 86400)
            \<and> (\<forall>k. k \<noteq> ''iat'' \<and> k \<noteq> ''exp'' \<longrightarrow> js_get claims k = js_get payload k)
            \<and> (now div 1000 < t div 1000 + 86400 \<longrightarrow>
                  verifyToken P secret now (generateJWT P secret t payload) = Some claims)
            \<and> (t div 1000 + 86400 \<le> now div 1000 \<longrightarrow>
                  verifyToken P secret now (generateJWT P secret t payload) = None)"
    by (rule exI)
next
  fix token e assume "jws_verify P token secret = Inl e"
  then show "verifyToken P secret now token = None" by (rule verifyToken_thrown)
next
  fix token claims assume "verifyToken P secret now token = Some claims"
  then show "jws_verify P token secret = Inr claims" 
    and "js_get claims ''exp'' = JUndefined \<or> (\<exists>e. js_get claims ''exp'' = JNum e \<and> now div 1000 < e)"
    using verifyToken_Some by blast+
qed

theorem access_token_expiry_witness:
  "(\<forall>claims. jws_verify demo_platform (jws_sign demo_platform ''jwt-secret'' claims) ''jwt-secret''
              = Inr claims)
   \<and> verifyToken demo_platform ''jwt-secret'' (T0 + 86399000)
        (generateJWT demo_platform ''jwt-secret'' T0 (access_claims ''client-1'' (JStr ''marvin-key'') T0))
       = Some (JObj [(''sub'', JStr ''client-1''),
                     (''amazing_marvin_api_key'', JStr ''marvin-key''),
                     (''iat'', JNum 1700000000),
                     (''exp'', JNum 1700086400)])
   \<and> verifyToken demo_platform ''jwt-secret'' (T0 + 86400000)
        (generateJWT demo_platform ''jwt-secret'' T0 (access_claims ''client-1'' (JStr ''marvin-key'') T0))
       = None
   \<and> verifyToken demo_platform ''another-secret'' (T0 + 1000)
        (generateJWT demo_platform ''jwt-secret'' T0 (access_claims ''client-1'' (JStr ''marvin-key'') T0))
       = None"
proof -
  let ?payload = "access_claims ''client-1'' (JStr ''marvin-key'') T0"
  let ?token = "generateJWT demo_platform ''jwt-secret'' T0 ?payload"
  have round: "jws_verify demo_platform (jws_sign demo_platform ''jwt-secret'' claims) ''jwt-secret''
                 = Inr claims" for claims
    by (simp add: demo_platform_signs)
  have early: "(T0 + 86399000) div 1000 < T0 div 1000 + 86400"
    and late: "T0 div 1000 + 86400 \<le> (T0 + 86400000) div 1000"
    by (simp_all add: T0_def)
  have signed: "jws_verify demo_platform ?token ''jwt-secret''
                 = Inr (JObj [(''sub'', JStr ''client-1''),
                              (''amazing_marvin_api_key'', JStr ''marvin-key''),
                              (''iat'', JNum 1700000000),
                              (''exp'', JNum 1700086400)])"
    by (simp add: generateJWT_def round setExpirationTime_def setIssuedAt_def js_set_def
          access_claims_def secs_24h T0_def)
  have forged: "jws_verify demo_platform ?token ''another-secret''
                  = Inl (JsError ''signature verification failed'' JUndefined)"
    by (simp add: generateJWT_def demo_platform_signs)
  from access_token_expiry [OF round, of T0 ?payload "T0 + 86399000"] signed early
  have before: "verifyToken demo_platform ''jwt-secret'' (T0 + 86399000) ?token
       = Some (JObj [(''sub'', JStr ''client-1''),
                     (''amazing_marvin_api_key'', JStr ''marvin-key''),
                     (''iat'', JNum 1700000000),
                     (''exp'', JNum 1700086400)])"
    by auto
  from access_token_expiry [OF round, of T0 ?payload "T0 + 86400000"] late
  have after: "verifyToken demo_platform ''jwt-secret'' (T0 + 86400000) ?token = None"
    by blast
  have other: "verifyToken demo_platform ''another-secret'' (T0 + 1000) ?token = None"
    using forged by (rule verifyToken_thrown)
  show ?thesis
    using round before after other by blast
qed

subsection \<open>Authorization code exchange\<close>

lemma exchange_success_deletes:
  assumes "handleTokenExchange P secret s now uuid (Inr f) = (r, s1)" "status r = 200"
    and "grant_type f = Some ''authorization_code''"
  shows "s1 (''auth_code:'' @ the (code f)) = None \<and> present (code f)"
  using assms
  by (auto simp: token_defs kv_put_def kv_delete_def split: option.splits if_splits)

lemma exchange_without_code:
  assumes "grant_type f = Some ''authorization_code''"
    and "s (''auth_code:'' @ the (code f)) = None" and "present (code f)"
  shows "handleTokenExchange P secret s now uuid (Inr f) = (refusal P s now f, s)"
  using assms
  by (auto simp: token_defs refusal_def client_checks_pass_def pkce_applies_def kv_get_absent
      split: option.splits if_splits)

lemma refusal_status: "status (refusal P s now f) = 400 \<or> status (refusal P s now f) = 401"
  by (simp add: refusal_def json_response_def)

text \<open>The steps of a request, and the requests served one after the other.\<close>

lemma step_finished: "exchange_step P secret now uuid (Finished r) s = (Finished r, s)"
  by (simp add: exchange_step_def)

lemma step_granted:
  "exchange_step P secret now uuid (Granted f authData accessToken) s =
     (Stored f accessToken,
      kv_put s now (''refresh_token:'' @ uuid)
        (refresh_record (the (client_id f)) (js_get authData ''api_key'') now) (86400 * 30))"
  by (simp add: exchange_step_def)

lemma step_stored:
  "exchange_step P secret now uuid (Stored f accessToken) s =
     (Finished (json_response P 200 token_headers (token_response accessToken uuid)),
      kv_delete s (''auth_code:'' @ the (code f)))"
  by (simp add: exchange_step_def)

lemma step_renewing:
  "exchange_step P secret now uuid (Renewing f tokenData accessToken) s =
     (Renewed f accessToken,
      kv_put s now (''refresh_token:'' @ uuid)
        (refresh_record (the (client_id f)) (js_get tokenData ''api_key'') now) (86400 * 30))"
  by (simp add: exchange_step_def)

lemma step_renewed:
  "exchange_step P secret now uuid (Renewed f accessToken) s =
     (Finished (json_response P 200 token_headers (token_response accessToken uuid)),
      kv_delete s (''refresh_token:'' @ the (refresh_token f)))"
  by (simp add: exchange_step_def)

lemmas step_writes = step_granted step_stored step_renewing step_renewed step_finished

lemma code_checks_sequential:
  "run_schedule P secret [0, 0] ([(now, uuid, code_checks P secret now f authData)], s)
     = ([(now, uuid, Finished (fst (issue_tokens P secret s now uuid f authData)))],
        snd (issue_tokens P secret s now uuid f authData))"
  by (simp add: code_checks_def issue_tokens_def step_finished step_granted step_stored Let_def)

lemma exchange_steps_sequential:
  "run_schedule P secret [0, 0, 0, 0] ([(now, uuid, Begin formData)], s)
     = ([(now, uuid, Finished (fst (handleTokenExchange P secret s now uuid formData)))],
        snd (handleTokenExchange P secret s now uuid formData))"
proof (cases formData)
  case (Inl e)
  then show ?thesis by (simp add: exchange_step_def handleTokenExchange_def)
next
  case (Inr f)
  show ?thesis
  proof (cases "grant_type f = Some ''refresh_token''")
    case True
    then show ?thesis
      using Inr
      by (simp add: exchange_step_def handleTokenExchange_def handleRefreshToken_def Let_def
          split: option.splits)
  next
    case False
    show ?thesis
    proof (cases "grant_type f \<noteq> Some ''authorization_code'' \<or> \<not> present (code f)
                    \<or> \<not> present (client_id f)")
      case True
      then show ?thesis
        using Inr False by (simp add: exchange_step_def handleTokenExchange_def)
    next
      case valid: False
      show ?thesis
      proof (cases "kv_get s now (''client:'' @ the (client_id f))")
        case None
        then show ?thesis
          using Inr False valid by (simp add: exchange_step_def handleTokenExchange_def)
      next
        case (Some client)
        define authData where
          "authData = (case kv_get s now (''auth_code:'' @ the (code f)) of None \<Rightarrow> JObj [] | Some d \<Rightarrow> d)"
        have started: "exchange_step P secret now uuid (Begin (Inr f)) s = (ClientRead f client, s)"
          using False valid Some by (simp add: exchange_step_def)
        have "run_schedule P secret [0, 0, 0, 0] ([(now, uuid, Begin formData)], s)
                = run_schedule P secret [0, 0, 0] ([(now, uuid, ClientRead f client)], s)"
          using Inr by (simp add: started)
        also have "\<dots> = ([(now, uuid, Finished (fst (handleTokenExchange P secret s now uuid formData)))],
                    snd (handleTokenExchange P secret s now uuid formData))"
        proof (cases "truthy (js_get authData ''code_challenge'') \<and> present (code_verifier f)")
          case pkce: True
          show ?thesis
          proof (cases "js_get authData ''code_challenge_method'' = JStr ''S256''
                   \<and> JStr (pkce_s256 P (the (code_verifier f))) \<noteq> js_get authData ''code_challenge''")
            case True
            have "exchange_step P secret now uuid (ClientRead f client) s
                    = (Finished (json_response P 400 json_headers
                         (oauth_error_desc ''invalid_grant'' ''PKCE verification failed'')), s)"
              unfolding exchange_step_def exchange.case Let_def authData_def [symmetric]
              using pkce True by simp
            moreover have "handleTokenExchange P secret s now uuid formData
                    = (json_response P 400 json_headers
                         (oauth_error_desc ''invalid_grant'' ''PKCE verification failed''), s)"
              unfolding handleTokenExchange_def Inr sum.case Let_def authData_def [symmetric]
              using False valid Some pkce True by simp
            ultimately show ?thesis by (simp add: step_finished)
          next
            case passed: False
            have "exchange_step P secret now uuid (ClientRead f client) s
                    = (code_checks P secret now f authData, s)"
              unfolding exchange_step_def exchange.case Let_def authData_def [symmetric]
              using pkce passed by auto
            moreover have "handleTokenExchange P secret s now uuid formData
                    = issue_tokens P secret s now uuid f authData"
              unfolding handleTokenExchange_def Inr sum.case Let_def authData_def [symmetric]
              using False valid Some pkce passed by auto
            ultimately show ?thesis
              using code_checks_sequential [of P secret now uuid f authData s] by simp
          qed
        next
          case no_pkce: False
          show ?thesis
          proof (cases "present (client_secret f)
                    \<and> js_get client ''client_secret'' \<noteq> form_json (client_secret f)")
            case True
            have "exchange_step P secret now uuid (ClientRead f client) s
                    = (Finished (json_response P 401 json_headers (oauth_error ''invalid_client'')), s)"
              unfolding exchange_step_def exchange.case Let_def authData_def [symmetric]
              using no_pkce True by auto
            moreover have "handleTokenExchange P secret s now uuid formData
                    = (json_response P 401 json_headers (oauth_error ''invalid_client''), s)"
              unfolding handleTokenExchange_def Inr sum.case Let_def authData_def [symmetric]
              using False valid Some no_pkce True by auto
            ultimately show ?thesis by (simp add: step_finished)
          next
            case passed: False
            have "exchange_step P secret now uuid (ClientRead f client) s
                    = (code_checks P secret now f authData, s)"
              unfolding exchange_step_def exchange.case Let_def authData_def [symmetric]
              using no_pkce passed by auto
            moreover have "handleTokenExchange P secret s now uuid formData
                    = issue_tokens P secret s now uuid f authData"
              unfolding handleTokenExchange_def Inr sum.case Let_def authData_def [symmetric]
              using False valid Some no_pkce passed by auto
            ultimately show ?thesis
              using code_checks_sequential [of P secret now uuid f authData s] by simp
          qed
        qed
        finally show ?thesis .
      qed
    qed
  qed
qed


lemma step_begin_snd: "snd (exchange_step P secret now uuid (Begin formData) s) = s"
  by (simp add: exchange_step_def split: sum.splits option.splits)

lemma step_client_read_snd: "snd (exchange_step P secret now uuid (ClientRead f client) s) = s"
  by (simp add: exchange_step_def Let_def)

lemma step_keeps_absent:
  assumes "s k = None" and "k \<noteq> ''refresh_token:'' @ uuid"
  shows "snd (exchange_step P secret now uuid e s) k = None"
  using assms
  by (cases e)
     (simp_all add: step_begin_snd step_client_read_snd step_writes kv_put_def kv_delete_def)

lemma step_keeps_clients:
  "snd (exchange_step P secret now uuid e s) (''client:'' @ x) = s (''client:'' @ x)"
  by (cases e)
     (simp_all add: step_begin_snd step_client_read_snd step_writes kv_put_def kv_delete_def)

lemma kv_get_cong: "s k = s' k \<Longrightarrow> kv_get s now k = kv_get s' now k"
  by (simp add: kv_get_def)

text \<open>
  The two reads of an exchange that begins when its code is not in the store, on a store
  that has the client registrations of that moment.
\<close>

lemma later_begin:
  assumes "grant_type f = Some ''authorization_code''" and "present (code f)"
    and "s1 (''auth_code:'' @ the (code f)) = None"
    and "\<And>x. s (''client:'' @ x) = s1 (''client:'' @ x)"
  shows "exchange_step P secret now uuid (Begin (Inr f)) s =
     ((case (if present (client_id f) then kv_get s1 now (''client:'' @ the (client_id f)) else None) of
         None \<Rightarrow> Finished (refusal P s1 now f)
       | Some client \<Rightarrow> ClientRead f client), s)"
proof -
  have clients: "kv_get s now (''client:'' @ the (client_id f)) = kv_get s1 now (''client:'' @ the (client_id f))"
    using assms(4) by (rule kv_get_cong)
  show ?thesis
    unfolding exchange_step_def exchange.case sum.case clients
    using assms(1,2)
    by (simp add: refusal_def client_checks_pass_def split: option.splits)
qed

lemma later_client_read:
  assumes "grant_type f = Some ''authorization_code''" and "present (code f)" and "present (client_id f)"
    and "s1 (''auth_code:'' @ the (code f)) = None" and "s (''auth_code:'' @ the (code f)) = None"
    and "kv_get s1 now (''client:'' @ the (client_id f)) = Some client"
  shows "exchange_step P secret now uuid (ClientRead f client) s = (Finished (refusal P s1 now f), s)"
proof -
  have absent: "kv_get s now (''auth_code:'' @ the (code f)) = None"
    "kv_get s1 now (''auth_code:'' @ the (code f)) = None"
    using assms(4,5) by (simp_all add: kv_get_absent)
  have no_pkce: "\<not> pkce_applies s1 now f"
    unfolding pkce_applies_def absent by simp
  show ?thesis
    unfolding exchange_step_def exchange.case absent option.case Let_def
    using assms(2,3,6) no_pkce
    by (simp add: refusal_def client_checks_pass_def code_checks_def)
qed


lemma later_phase_step:
  assumes "grant_type f = Some ''authorization_code''" and "present (code f)"
    and "s1 (''auth_code:'' @ the (code f)) = None" and "s (''auth_code:'' @ the (code f)) = None"
    and "\<And>x. s (''client:'' @ x) = s1 (''client:'' @ x)"
    and "later_phase P s1 now f n e"
  shows "later_phase P s1 now f (Suc n) (fst (exchange_step P secret now uuid e s))"
    and "snd (exchange_step P secret now uuid e s) = s"
proof -
  have "later_phase P s1 now f (Suc n) (fst (exchange_step P secret now uuid e s))
          \<and> snd (exchange_step P secret now uuid e s) = s"
  proof (cases "n = 0")
    case True
    then have e: "e = Begin (Inr f)" using assms(6) by (simp add: later_phase_def)
    show ?thesis
      unfolding e later_begin [OF assms(1,2,3,5)]
      using True by (simp add: later_phase_def split: option.splits)
  next
    case False
    then consider "e = Finished (refusal P s1 now f)"
      | client where "present (client_id f)" "kv_get s1 now (''client:'' @ the (client_id f)) = Some client"
          "e = ClientRead f client"
      using assms(6) by (auto simp: later_phase_def split: option.splits)
    then show ?thesis
    proof cases
      case 1
      then show ?thesis by (simp add: step_finished later_phase_def)
    next
      case 2
      have "exchange_step P secret now uuid (ClientRead f client) s = (Finished (refusal P s1 now f), s)"
        using assms(1,2) 2(1) assms(3,4) 2(2)
        by (rule later_client_read [where f = f and s = s and ?s1.0 = s1 and client = client])
      then show ?thesis
        unfolding 2(3) by (simp add: later_phase_def)
    qed
  qed
  then show "later_phase P s1 now f (Suc n) (fst (exchange_step P secret now uuid e s))"
    and "snd (exchange_step P secret now uuid e s) = s"
    by simp_all
qed

lemma later_phase_finished:
  "later_phase P s1 now f n e \<Longrightarrow> 2 \<le> n \<Longrightarrow> e = Finished (refusal P s1 now f)"
  "later_phase P s1 now f n (Finished r) \<Longrightarrow> r = refusal P s1 now f"
  by (auto simp: later_phase_def split: if_splits option.splits)

lemma later_exchange_refused:
  assumes "grant_type f = Some ''authorization_code''" and "present (code f)"
    and "s1 (''auth_code:'' @ the (code f)) = None"
  shows "s (''auth_code:'' @ the (code f)) = None \<Longrightarrow> (\<And>x. s (''client:'' @ x) = s1 (''client:'' @ x))
     \<Longrightarrow> j < length ps \<Longrightarrow> ps ! j = (now, uuid, e) \<Longrightarrow> later_phase P s1 now f n e
     \<Longrightarrow> snd (run_schedule P secret sched (ps, s)) (''auth_code:'' @ the (code f)) = None
         \<and> (\<forall>x. snd (run_schedule P secret sched (ps, s)) (''client:'' @ x) = s1 (''client:'' @ x))
         \<and> (\<exists>e'. fst (run_schedule P secret sched (ps, s)) ! j = (now, uuid, e')
                \<and> later_phase P s1 now f (n + count_list sched j) e')"
proof (induction sched arbitrary: ps s e n)
  case Nil
  then show ?case by simp
next
  case (Cons i sched)
  show ?case
  proof (cases "i < length ps")
    case False
    then have "i \<noteq> j" using Cons.prems(3) by auto
    then have "count_list (i # sched) j = count_list sched j" by simp
    moreover have "run_schedule P secret (i # sched) (ps, s) = run_schedule P secret sched (ps, s)"
      using False by simp
    ultimately show ?thesis
      using Cons.IH [OF Cons.prems] by simp
  next
    case True
    obtain now_i uuid_i e_i where at_i: "ps ! i = (now_i, uuid_i, e_i)" by (cases "ps ! i") auto
    obtain e2 s2 where step: "exchange_step P secret now_i uuid_i e_i s = (e2, s2)"
      by (cases "exchange_step P secret now_i uuid_i e_i s")
    have run: "run_schedule P secret (i # sched) (ps, s)
                 = run_schedule P secret sched (ps[i := (now_i, uuid_i, e2)], s2)"
      using True by (simp add: at_i step)
    have absent: "s2 (''auth_code:'' @ the (code f)) = None"
      using step_keeps_absent [where s = s and k = "''auth_code:'' @ the (code f)" and uuid = uuid_i
          and P = P and secret = secret and now = now_i and e = e_i] Cons.prems(1) step
      by simp
    have clients: "s2 (''client:'' @ x) = s1 (''client:'' @ x)" for x
      using step_keeps_clients [of P secret now_i uuid_i e_i s x] step Cons.prems(2) by simp
    have len: "j < length (ps[i := (now_i, uuid_i, e2)])" using Cons.prems(3) by simp
    show ?thesis
    proof (cases "i = j")
      case same: True
      have e_i: "now_i = now" "uuid_i = uuid" "e_i = e"
        using at_i Cons.prems(4) same by simp_all
      have e2: "later_phase P s1 now f (Suc n) e2"
        using later_phase_step(1) [OF assms(1,2,3) Cons.prems(1,2,5), of secret uuid] step e_i by simp
      have at_j: "ps[i := (now_i, uuid_i, e2)] ! j = (now, uuid, e2)"
        using same True e_i by simp
      have "count_list (i # sched) j = Suc (count_list sched j)" using same by simp
      then show ?thesis
        unfolding run using Cons.IH [OF absent clients len at_j e2] by simp
    next
      case other: False
      have at_j: "ps[i := (now_i, uuid_i, e2)] ! j = (now, uuid, e)"
        using other Cons.prems(4) by simp
      have "count_list (i # sched) j = count_list sched j" using other by simp
      then show ?thesis
        unfolding run using Cons.IH [OF absent clients len at_j Cons.prems(5)] by simp
    qed
  qed
qed


lemma exchange_success_reads:
  assumes "status (fst (handleTokenExchange P secret s now uuid (Inr f))) = 200"
    and "grant_type f = Some ''authorization_code''"
  shows "\<exists>client authData.
           exchange_step P secret now uuid (Begin (Inr f)) s = (ClientRead f client, s)
           \<and> exchange_step P secret now uuid (ClientRead f client) s
               = (Granted f authData
                    (generateJWT P secret now
                       (access_claims (the (client_id f)) (js_get authData ''api_key'') now)), s)
           \<and> fst (handleTokenExchange P secret s now uuid (Inr f))
               = json_response P 200 token_headers
                   (token_response
                      (generateJWT P secret now
                         (access_claims (the (client_id f)) (js_get authData ''api_key'') now)) uuid)"
proof -
  have valid: "present (code f)" "present (client_id f)"
    using assms by (auto simp: handleTokenExchange_def json_response_def split: if_splits)
  obtain client where client: "kv_get s now (''client:'' @ the (client_id f)) = Some client"
    using assms valid
    by (cases "kv_get s now (''client:'' @ the (client_id f))")
       (auto simp: handleTokenExchange_def json_response_def)
  define authData where
    "authData = (case kv_get s now (''auth_code:'' @ the (code f)) of None \<Rightarrow> JObj [] | Some d \<Rightarrow> d)"
  have served: "handleTokenExchange P secret s now uuid (Inr f) =
     (if truthy (js_get authData ''code_challenge'') \<and> present (code_verifier f) then
        if js_get authData ''code_challenge_method'' = JStr ''S256''
           \<and> JStr (pkce_s256 P (the (code_verifier f))) \<noteq> js_get authData ''code_challenge''
        then (json_response P 400 json_headers
                (oauth_error_desc ''invalid_grant'' ''PKCE verification failed''), s)
        else issue_tokens P secret s now uuid f authData
      else if present (client_secret f)
              \<and> js_get client ''client_secret'' \<noteq> form_json (client_secret f) then
        (json_response P 401 json_headers (oauth_error ''invalid_client''), s)
      else issue_tokens P secret s now uuid f authData)"
    unfolding handleTokenExchange_def sum.case Let_def authData_def [symmetric]
    using assms(2) valid client by simp
  have read: "exchange_step P secret now uuid (ClientRead f client) s =
     (if truthy (js_get authData ''code_challenge'') \<and> present (code_verifier f) then
        if js_get authData ''code_challenge_method'' = JStr ''S256''
           \<and> JStr (pkce_s256 P (the (code_verifier f))) \<noteq> js_get authData ''code_challenge''
        then (Finished (json_response P 400 json_headers
                (oauth_error_desc ''invalid_grant'' ''PKCE verification failed'')), s)
        else (code_checks P secret now f authData, s)
      else if present (client_secret f)
              \<and> js_get client ''client_secret'' \<noteq> form_json (client_secret f) then
        (Finished (json_response P 401 json_headers (oauth_error ''invalid_client'')), s)
      else (code_checks P secret now f authData, s))"
    unfolding exchange_step_def exchange.case Let_def authData_def [symmetric] by simp
  have issued: "status (fst (issue_tokens P secret s now uuid f authData)) = 200"
    and passed: "exchange_step P secret now uuid (ClientRead f client) s
                   = (code_checks P secret now f authData, s)"
    using assms(1) unfolding served read
    by (auto simp: json_response_def split: if_splits)
  have granted: "code_checks P secret now f authData
                   = Granted f authData
                       (generateJWT P secret now
                          (access_claims (the (client_id f)) (js_get authData ''api_key'') now))"
    and response: "fst (issue_tokens P secret s now uuid f authData)
               = json_response P 200 token_headers
                   (token_response
                      (generateJWT P secret now
                         (access_claims (the (client_id f)) (js_get authData ''api_key'') now)) uuid)"
    using issued
    by (auto simp: issue_tokens_def code_checks_def json_response_def Let_def split: if_splits)
  have same: "fst (handleTokenExchange P secret s now uuid (Inr f))
                = fst (issue_tokens P secret s now uuid f authData)"
    using assms(1) unfolding served by (auto simp: json_response_def split: if_splits)
  have started: "exchange_step P secret now uuid (Begin (Inr f)) s = (ClientRead f client, s)"
    using assms(2) valid client by (simp add: exchange_step_def)
  show ?thesis
    using started passed granted response same by (intro exI conjI) simp_all
qed

lemma overlapping_exchanges:
  assumes "status (fst (handleTokenExchange P secret s now uuid (Inr f))) = 200"
    and "grant_type f = Some ''authorization_code''"
    and "status (fst (handleTokenExchange P secret s now' uuid' (Inr g))) = 200"
    and "grant_type g = Some ''authorization_code''"
  shows "fst (run_schedule P secret [0, 0, 1, 1, 0, 0, 1, 1]
                ([(now, uuid, Begin (Inr f)), (now', uuid', Begin (Inr g))], s))
           = [(now, uuid, Finished (fst (handleTokenExchange P secret s now uuid (Inr f)))),
              (now', uuid', Finished (fst (handleTokenExchange P secret s now' uuid' (Inr g))))]"
    and "snd (run_schedule P secret [0, 0, 1, 1, 0, 0, 1, 1]
                ([(now, uuid, Begin (Inr f)), (now', uuid', Begin (Inr g))], s))
           (''auth_code:'' @ the (code g)) = None"
proof -
  from exchange_success_reads [OF assms(1,2)] obtain client authData where
    f1: "exchange_step P secret now uuid (Begin (Inr f)) s = (ClientRead f client, s)"
    and f2: "exchange_step P secret now uuid (ClientRead f client) s
               = (Granted f authData
                    (generateJWT P secret now
                       (access_claims (the (client_id f)) (js_get authData ''api_key'') now)), s)"
    and f3: "fst (handleTokenExchange P secret s now uuid (Inr f))
               = json_response P 200 token_headers
                   (token_response
                      (generateJWT P secret now
                         (access_claims (the (client_id f)) (js_get authData ''api_key'') now)) uuid)"
    by blast
  from exchange_success_reads [OF assms(3,4)] obtain client' authData' where
    g1: "exchange_step P secret now' uuid' (Begin (Inr g)) s = (ClientRead g client', s)"
    and g2: "exchange_step P secret now' uuid' (ClientRead g client') s
               = (Granted g authData'
                    (generateJWT P secret now'
                       (access_claims (the (client_id g)) (js_get authData' ''api_key'') now')), s)"
    and g3: "fst (handleTokenExchange P secret s now' uuid' (Inr g))
               = json_response P 200 token_headers
                   (token_response
                      (generateJWT P secret now'
                         (access_claims (the (client_id g)) (js_get authData' ''api_key'') now')) uuid')"
    by blast
  show "fst (run_schedule P secret [0, 0, 1, 1, 0, 0, 1, 1]
                ([(now, uuid, Begin (Inr f)), (now', uuid', Begin (Inr g))], s))
           = [(now, uuid, Finished (fst (handleTokenExchange P secret s now uuid (Inr f)))),
              (now', uuid', Finished (fst (handleTokenExchange P secret s now' uuid' (Inr g))))]"
    by (simp add: f1 f2 f3 g1 g2 g3 step_granted step_stored)
  show "snd (run_schedule P secret [0, 0, 1, 1, 0, 0, 1, 1]
                ([(now, uuid, Begin (Inr f)), (now', uuid', Begin (Inr g))], s))
           (''auth_code:'' @ the (code g)) = None"
    by (simp add: f1 f2 g1 g2 step_granted step_stored kv_delete_def)
qed

lemma refusal_cong:
  assumes "s (''auth_code:'' @ the (code f)) = None" and "s1 (''auth_code:'' @ the (code f)) = None"
    and "\<And>x. s (''client:'' @ x) = s1 (''client:'' @ x)"
  shows "refusal P s now f = refusal P s1 now f"
proof -
  have clients: "kv_get s now (''client:'' @ the (client_id f))
                   = kv_get s1 now (''client:'' @ the (client_id f))"
    using assms(3) by (rule kv_get_cong)
  have absent: "kv_get s now (''auth_code:'' @ the (code f)) = None"
    and absent1: "kv_get s1 now (''auth_code:'' @ the (code f)) = None"
    using assms(1,2) by (simp_all add: kv_get_absent)
  show ?thesis
    unfolding refusal_def client_checks_pass_def pkce_applies_def clients absent absent1
    by (rule refl)
qed

text \<open>
  C2, as the code has it. A successful exchange deletes the stored code; served alone,
  its four steps give that response and that store. From then on the
  code stays deleted, whatever token requests the endpoint serves and however their steps
  interleave, and an exchange presenting the code that begins after the deletion is
  refused, alone or among overlapping requests: it never gets past its two reads, after
  which it is finished, and its response is \<open>invalid_grant\<close> (400) when the request passes
  the client checks, which run first, \<open>invalid_client\<close> (401) when it names an unknown
  client or carries a client secret that is not the registered one, and \<open>invalid_request\<close>
  (400) when it has no client id; served without overlap it leaves the store as it was.
  Single use is not guaranteed for exchanges that overlap: the code is read and deleted by
  separate store operations, and when two exchanges of one code, each of which would
  succeed alone, both make their reads before either writes, both are answered with the
  tokens they would get alone, and the code is deleted only then.
\<close>

theorem authorization_code_single_use:
  assumes first: "handleTokenExchange P secret s now uuid (Inr f) = (r, s1)"
    and ok: "status r = 200"
    and grant: "grant_type f = Some ''authorization_code''"
    and later: "j < length ps" "ps ! j = (now', uuid', Begin (Inr f'))"
    and grant': "grant_type f' = Some ''authorization_code''"
    and same: "code f' = code f"
  shows "s1 (''auth_code:'' @ the (code f)) = None
     \<and> run_schedule P secret [0, 0, 0, 0] ([(now, uuid, Begin (Inr f))], s)
         = ([(now, uuid, Finished r)], s1)
     \<and> snd (run_schedule P secret sched (ps, s1)) (''auth_code:'' @ the (code f)) = None
     \<and> (\<forall>r'. snd (snd (fst (run_schedule P secret sched (ps, s1)) ! j)) = Finished r' \<longrightarrow>
            r' = refusal P s1 now' f')
     \<and> (2 \<le> count_list sched j \<longrightarrow>
          fst (run_schedule P secret sched (ps, s1)) ! j = (now', uuid', Finished (refusal P s1 now' f')))
     \<and> (status (refusal P s1 now' f') = 400 \<or> status (refusal P s1 now' f') = 401)
     \<and> refusal P s1 now' f' =
         (if client_checks_pass s1 now' f' then
            json_response P 400 json_headers
              (oauth_error_desc ''invalid_grant'' ''Authorization code expired or invalid'')
          else if present (client_id f') then
            json_response P 401 json_headers (oauth_error ''invalid_client'')
          else json_response P 400 json_headers
                 (oauth_error_desc ''invalid_request'' ''Missing required parameters''))
     \<and> handleTokenExchange P secret (snd (run_schedule P secret sched (ps, s1))) now' uuid' (Inr f')
         = (refusal P s1 now' f', snd (run_schedule P secret sched (ps, s1)))
     \<and> (grant_type g = Some ''authorization_code'' \<and> code g = code f
          \<and> status (fst (handleTokenExchange P secret s now2 uuid2 (Inr g))) = 200 \<longrightarrow>
          fst (run_schedule P secret [0, 0, 1, 1, 0, 0, 1, 1]
                 ([(now, uuid, Begin (Inr f)), (now2, uuid2, Begin (Inr g))], s))
            = [(now, uuid, Finished r),
               (now2, uuid2, Finished (fst (handleTokenExchange P secret s now2 uuid2 (Inr g))))]
          \<and> snd (run_schedule P secret [0, 0, 1, 1, 0, 0, 1, 1]
                    ([(now, uuid, Begin (Inr f)), (now2, uuid2, Begin (Inr g))], s))
                (''auth_code:'' @ the (code f)) = None)"
proof -
  let ?after = "run_schedule P secret sched (ps, s1)"
  have gone: "s1 (''auth_code:'' @ the (code f)) = None" and pres: "present (code f)"
    using exchange_success_deletes [OF first ok grant] by simp_all
  have gone': "s1 (''auth_code:'' @ the (code f')) = None" and pres': "present (code f')"
    using gone pres same by simp_all
  have begun: "later_phase P s1 now' f' 0 (Begin (Inr f'))"
    by (simp add: later_phase_def)
  have "snd ?after (''auth_code:'' @ the (code f')) = None
         \<and> (\<forall>x. snd ?after (''client:'' @ x) = s1 (''client:'' @ x))
         \<and> (\<exists>e'. fst ?after ! j = (now', uuid', e')
                \<and> later_phase P s1 now' f' (0 + count_list sched j) e')"
    using grant' pres' gone' gone' _ later begun
    by (rule later_exchange_refused [where f = f' and ?s1.0 = s1 and s = s1 and n = 0]) (rule refl)
  then obtain e' where
    absent: "snd ?after (''auth_code:'' @ the (code f')) = None"
    and clients: "\<And>x. snd ?after (''client:'' @ x) = s1 (''client:'' @ x)"
    and at_j: "fst ?after ! j = (now', uuid', e')"
    and phase: "later_phase P s1 now' f' (count_list sched j) e'"
    by auto
  have b: "snd ?after (''auth_code:'' @ the (code f)) = None"
    using absent same by simp
  have c: "\<forall>r'. snd (snd (fst ?after ! j)) = Finished r' \<longrightarrow> r' = refusal P s1 now' f'"
    using phase later_phase_finished(2) by (auto simp: at_j)
  have d: "2 \<le> count_list sched j \<longrightarrow> fst ?after ! j = (now', uuid', Finished (refusal P s1 now' f'))"
    using phase later_phase_finished(1) by (auto simp: at_j)
  have e: "status (refusal P s1 now' f') = 400 \<or> status (refusal P s1 now' f') = 401"
    by (rule refusal_status)
  have f: "refusal P s1 now' f' =
         (if client_checks_pass s1 now' f' then
            json_response P 400 json_headers
              (oauth_error_desc ''invalid_grant'' ''Authorization code expired or invalid'')
          else if present (client_id f') then
            json_response P 401 json_headers (oauth_error ''invalid_client'')
          else json_response P 400 json_headers
                 (oauth_error_desc ''invalid_request'' ''Missing required parameters''))"
    by (simp add: refusal_def)
  have "refusal P (snd ?after) now' f' = refusal P s1 now' f'"
    using absent gone' clients by (rule refusal_cong)
  moreover have "handleTokenExchange P secret (snd ?after) now' uuid' (Inr f')
                  = (refusal P (snd ?after) now' f', snd ?after)"
    using grant' absent pres'
    by (rule exchange_without_code [where f = f' and s = "snd ?after"])
  ultimately have g: "handleTokenExchange P secret (snd ?after) now' uuid' (Inr f')
                  = (refusal P s1 now' f', snd ?after)"
    by simp
  have alone: "status (fst (handleTokenExchange P secret s now uuid (Inr f))) = 200"
    and r: "fst (handleTokenExchange P secret s now uuid (Inr f)) = r"
    using first ok by simp_all
  have h: "grant_type g = Some ''authorization_code'' \<and> code g = code f
          \<and> status (fst (handleTokenExchange P secret s now2 uuid2 (Inr g))) = 200 \<longrightarrow>
          fst (run_schedule P secret [0, 0, 1, 1, 0, 0, 1, 1]
                 ([(now, uuid, Begin (Inr f)), (now2, uuid2, Begin (Inr g))], s))
            = [(now, uuid, Finished r),
               (now2, uuid2, Finished (fst (handleTokenExchange P secret s now2 uuid2 (Inr g))))]
          \<and> snd (run_schedule P secret [0, 0, 1, 1, 0, 0, 1, 1]
                    ([(now, uuid, Begin (Inr f)), (now2, uuid2, Begin (Inr g))], s))
                (''auth_code:'' @ the (code f)) = None"
  proof (intro impI)
    assume overlap: "grant_type g = Some ''authorization_code'' \<and> code g = code f
          \<and> status (fst (handleTokenExchange P secret s now2 uuid2 (Inr g))) = 200"
    then have g_grant: "grant_type g = Some ''authorization_code''" and g_code: "code g = code f"
      and g_alone: "status (fst (handleTokenExchange P secret s now2 uuid2 (Inr g))) = 200"
      by simp_all
    note both = overlapping_exchanges [OF alone grant g_alone g_grant]
    show "fst (run_schedule P secret [0, 0, 1, 1, 0, 0, 1, 1]
                 ([(now, uuid, Begin (Inr f)), (now2, uuid2, Begin (Inr g))], s))
            = [(now, uuid, Finished r),
               (now2, uuid2, Finished (fst (handleTokenExchange P secret s now2 uuid2 (Inr g))))]
          \<and> snd (run_schedule P secret [0, 0, 1, 1, 0, 0, 1, 1]
                    ([(now, uuid, Begin (Inr f)), (now2, uuid2, Begin (Inr g))], s))
                (''auth_code:'' @ the (code f)) = None"
      using both unfolding r g_code by (rule conjI)
  qed
  have alone_steps: "run_schedule P secret [0, 0, 0, 0] ([(now, uuid, Begin (Inr f))], s)
         = ([(now, uuid, Finished r)], s1)"
    by (simp only: exchange_steps_sequential first fst_conv snd_conv)
  show ?thesis
    using gone alone_steps b c d e f g h by (intro conjI)
qed

theorem authorization_code_single_use_witness:
  "status (fst (handleTokenExchange demo_platform ''jwt-secret'' (demo_store [] []) (T0 + 1000) ''refresh-1''
             (Inr (demo_exchange None ''https://app.example/cb'' None)))) = 200
   \<and> fst (run_schedule demo_platform ''jwt-secret'' [0, 0]
            ([(T0 + 2000, ''refresh-2'', Begin (Inr (demo_exchange None ''https://app.example/cb'' None)))],
             snd (handleTokenExchange demo_platform ''jwt-secret'' (demo_store [] []) (T0 + 1000)
                    ''refresh-1'' (Inr (demo_exchange None ''https://app.example/cb'' None)))))
       = [(T0 + 2000, ''refresh-2'',
           Finished (json_response demo_platform 400 json_headers
             (oauth_error_desc ''invalid_grant'' ''Authorization code expired or invalid'')))]
   \<and> status (fst (handleTokenExchange demo_platform ''jwt-secret'' (demo_store [] []) (T0 + 1500) ''refresh-2''
             (Inr (demo_exchange None ''https://app.example/cb'' None)))) = 200
   \<and> fst (run_schedule demo_platform ''jwt-secret'' [0, 0, 1, 1, 0, 0, 1, 1]
            ([(T0 + 1000, ''refresh-1'', Begin (Inr (demo_exchange None ''https://app.example/cb'' None))),
              (T0 + 1500, ''refresh-2'', Begin (Inr (demo_exchange None ''https://app.example/cb'' None)))],
             demo_store [] []))
       = [(T0 + 1000, ''refresh-1'',
           Finished (fst (handleTokenExchange demo_platform ''jwt-secret'' (demo_store [] []) (T0 + 1000)
                            ''refresh-1'' (Inr (demo_exchange None ''https://app.example/cb'' None))))),
          (T0 + 1500, ''refresh-2'',
           Finished (fst (handleTokenExchange demo_platform ''jwt-secret'' (demo_store [] []) (T0 + 1500)
                            ''refresh-2'' (Inr (demo_exchange None ''https://app.example/cb'' None)))))]"
proof -
  let ?f = "demo_exchange None ''https://app.example/cb'' None"
  let ?first = "handleTokenExchange demo_platform ''jwt-secret'' (demo_store [] []) (T0 + 1000) ''refresh-1'' (Inr ?f)"
  let ?ps = "[(T0 + 2000, ''refresh-2'', Begin (Inr ?f))]"
  have h1: "?first = (fst ?first, snd ?first)" by simp
  have h2: "status (fst ?first) = 200" by (simp add: run_defs demo_defs)
  have h3: "status (fst (handleTokenExchange demo_platform ''jwt-secret'' (demo_store [] []) (T0 + 1500)
              ''refresh-2'' (Inr ?f))) = 200"
    by (simp add: run_defs demo_defs)
  have g: "grant_type ?f = Some ''authorization_code''" by (simp add: demo_exchange_def)
  have at: "(0::nat) < length ?ps" "?ps ! 0 = (T0 + 2000, ''refresh-2'', Begin (Inr ?f))" by simp_all
  have twice: "2 \<le> count_list [0, 0] (0::nat)" by simp
  have cc: "client_checks_pass (snd ?first) (T0 + 2000) ?f"
    by (simp add: client_checks_pass_def pkce_applies_def run_defs demo_defs)
  note run = authorization_code_single_use [OF h1 h2 g at g refl, where sched = "[0, 0]" and g = ?f
      and ?now2.0 = "T0 + 1500" and ?uuid2.0 = "''refresh-2''"]
  have refused: "refusal demo_platform (snd ?first) (T0 + 2000) ?f
      = json_response demo_platform 400 json_headers
          (oauth_error_desc ''invalid_grant'' ''Authorization code expired or invalid'')"
    using run cc by simp
  have single: "length (fst (run_schedule demo_platform ''jwt-secret'' [0, 0] (?ps, snd ?first))) = 1"
    by (simp split: prod.splits)
  have "fst (run_schedule demo_platform ''jwt-secret'' [0, 0] (?ps, snd ?first)) ! 0
          = (T0 + 2000, ''refresh-2'', Finished (refusal demo_platform (snd ?first) (T0 + 2000) ?f))"
    using run twice by blast
  then have later: "fst (run_schedule demo_platform ''jwt-secret'' [0, 0] (?ps, snd ?first))
          = [(T0 + 2000, ''refresh-2'',
              Finished (json_response demo_platform 400 json_headers
                (oauth_error_desc ''invalid_grant'' ''Authorization code expired or invalid'')))]"
    using single unfolding refused
    by (cases "fst (run_schedule demo_platform ''jwt-secret'' [0, 0] (?ps, snd ?first))") simp_all
  have both: "fst (run_schedule demo_platform ''jwt-secret'' [0, 0, 1, 1, 0, 0, 1, 1]
            ([(T0 + 1000, ''refresh-1'', Begin (Inr ?f)), (T0 + 1500, ''refresh-2'', Begin (Inr ?f))],
             demo_store [] []))
       = [(T0 + 1000, ''refresh-1'', Finished (fst ?first)),
          (T0 + 1500, ''refresh-2'',
           Finished (fst (handleTokenExchange demo_platform ''jwt-secret'' (demo_store [] []) (T0 + 1500)
                            ''refresh-2'' (Inr ?f))))]"
    using run g h3 by blast
  show ?thesis
    using h2 later h3 both by (intro conjI)
qed

text \<open>
  C2 as stated fails: a client that holds a stale secret and a valid PKCE verifier is
  served once (the PKCE branch skips the secret); the same request sent again is answered
  \<open>invalid_client\<close> with status 401, not \<open>invalid_grant\<close> with status 400, because the
  code is gone, the PKCE branch no longer applies and the secret is compared.
\<close>

theorem authorization_code_single_use_counterexample:
  "status (fst (handleTokenExchange demo_platform ''jwt-secret''
             (demo_store ''E9Melhoa2OwvFrEMTJguCHaoeK1t8URWbuGJSstw-cM'' ''S256'') (T0 + 1000) ''refresh-1''
             (Inr (demo_exchange (Some ''stale-secret'') ''https://app.example/cb''
                     (Some ''dBjftJeZ4CVP-mB92K27uhbUJU1p1r_wW1gFWFOEjXk''))))) = 200
   \<and> fst (handleTokenExchange demo_platform ''jwt-secret''
        (snd (handleTokenExchange demo_platform ''jwt-secret''
               (demo_store ''E9Melhoa2OwvFrEMTJguCHaoeK1t8URWbuGJSstw-cM'' ''S256'') (T0 + 1000) ''refresh-1''
               (Inr (demo_exchange (Some ''stale-secret'') ''https://app.example/cb''
                       (Some ''dBjftJeZ4CVP-mB92K27uhbUJU1p1r_wW1gFWFOEjXk'')))))
        (T0 + 2000) ''refresh-2''
        (Inr (demo_exchange (Some ''stale-secret'') ''https://app.example/cb''
                (Some ''dBjftJeZ4CVP-mB92K27uhbUJU1p1r_wW1gFWFOEjXk''))))
       = \<lparr> status = 401, headers = json_headers,
           body = TextBody (JSON_stringify demo_platform (oauth_error ''invalid_client'')) \<rparr>"
  by (simp add: run_defs demo_defs pkce_s256_def demo_platform_def)

subsection \<open>Redirect URI binding\<close>

lemma issue_tokens_redirect_mismatch:
  assumes "js_get authData ''redirect_uri'' \<noteq> form_json (redirect_uri f)"
  shows "issue_tokens P secret s now uuid f authData =
     (json_response P 400 json_headers
        (oauth_error_desc ''invalid_grant''
           (if truthy (js_get authData ''client_id'') then ''Redirect URI mismatch''
            else ''Authorization code expired or invalid'')), s)"
  using assms by (simp add: issue_tokens_def)

text \<open>
  C8, as the code has it. An exchange whose \<open>redirect_uri\<close> differs from the one stored
  with the code never succeeds and leaves the store as it was (no refresh token is stored,
  the code is not consumed). The error is \<open>invalid_grant\<close> with status 400 when the request
  passes the client checks, which run first. When it does not, the error is that of those
  checks: \<open>invalid_request\<close> with status 400 when the client id or the code is missing or
  empty, and otherwise \<open>invalid_client\<close> with status 401 (the client is not registered,
  or the request carries a client secret that is not the registered one and no PKCE
  verifier applies).
\<close>

theorem redirect_uri_binding:
  assumes "grant_type f = Some ''authorization_code''" and "code f = Some c"
    and "kv_get s now (''auth_code:'' @ c) = Some (auth_code_record af t)"
    and "redirect_uri f \<noteq> af_redirect_uri af"
  shows "status (fst (handleTokenExchange P secret s now uuid (Inr f))) \<noteq> 200
     \<and> snd (handleTokenExchange P secret s now uuid (Inr f)) = s
     \<and> (client_checks_pass s now f \<longrightarrow>
          (\<exists>d. fst (handleTokenExchange P secret s now uuid (Inr f))
                = json_response P 400 json_headers (oauth_error_desc ''invalid_grant'' d)))
     \<and> (\<not> client_checks_pass s now f \<longrightarrow>
          fst (handleTokenExchange P secret s now uuid (Inr f))
            = (if present (code f) \<and> present (client_id f)
               then json_response P 401 json_headers (oauth_error ''invalid_client'')
               else json_response P 400 json_headers
                      (oauth_error_desc ''invalid_request'' ''Missing required parameters'')))"
proof -
  have mis: "js_get (auth_code_record af t) ''redirect_uri'' \<noteq> form_json (redirect_uri f)"
    using assms(4) by (simp add: js_get_auth_code_record form_json_eq)
  have refused: "status (fst (handleTokenExchange P secret s now uuid (Inr f))) \<noteq> 200
     \<and> snd (handleTokenExchange P secret s now uuid (Inr f)) = s
     \<and> (client_checks_pass s now f \<longrightarrow>
          (\<exists>d. fst (handleTokenExchange P secret s now uuid (Inr f))
                = json_response P 400 json_headers (oauth_error_desc ''invalid_grant'' d)))"
    using assms(1-3)
    by (auto simp: handleTokenExchange_def issue_tokens_redirect_mismatch [OF mis] json_response_def
          client_checks_pass_def pkce_applies_def Let_def
        split: option.splits)
  have client_error: "\<not> client_checks_pass s now f \<longrightarrow>
          fst (handleTokenExchange P secret s now uuid (Inr f))
            = (if present (code f) \<and> present (client_id f)
               then json_response P 401 json_headers (oauth_error ''invalid_client'')
               else json_response P 400 json_headers
                      (oauth_error_desc ''invalid_request'' ''Missing required parameters''))"
    using assms(1-3)
    by (auto simp: handleTokenExchange_def client_checks_pass_def pkce_applies_def Let_def
        split: option.splits)
  show ?thesis
    using refused client_error by blast
qed

theorem redirect_uri_binding_witness:
  "kv_get (demo_store [] []) (T0 + 1000) (''auth_code:'' @ ''code-1'')
     = Some (auth_code_record (demo_authorize_form [] []) T0)
   \<and> client_checks_pass (demo_store [] []) (T0 + 1000)
        (demo_exchange None ''https://evil.example/cb'' None)
   \<and> handleTokenExchange demo_platform ''jwt-secret'' (demo_store [] []) (T0 + 1000) ''refresh-1''
        (Inr (demo_exchange None ''https://evil.example/cb'' None))
       = (json_response demo_platform 400 json_headers
            (oauth_error_desc ''invalid_grant'' ''Redirect URI mismatch''), demo_store [] [])
   \<and> \<not> client_checks_pass (demo_store [] []) (T0 + 1000)
          (demo_exchange (Some ''wrong-secret'') ''https://evil.example/cb'' None)
   \<and> handleTokenExchange demo_platform ''jwt-secret'' (demo_store [] []) (T0 + 1000) ''refresh-1''
        (Inr (demo_exchange (Some ''wrong-secret'') ''https://evil.example/cb'' None))
       = (json_response demo_platform 401 json_headers (oauth_error ''invalid_client''),
          demo_store [] [])"
proof -
  let ?f = "demo_exchange None ''https://evil.example/cb'' None"
  let ?g = "demo_exchange (Some ''wrong-secret'') ''https://evil.example/cb'' None"
  have g: "grant_type ?f = Some ''authorization_code''" and c: "code ?f = Some ''code-1''"
    and g': "grant_type ?g = Some ''authorization_code''" and c': "code ?g = Some ''code-1''"
    by (simp_all add: demo_exchange_def)
  have st: "kv_get (demo_store [] []) (T0 + 1000) (''auth_code:'' @ ''code-1'')
              = Some (auth_code_record (demo_authorize_form [] []) T0)"
    by (simp add: demo_store_def kv_get_put T0_def)
  have rd: "redirect_uri ?f \<noteq> af_redirect_uri (demo_authorize_form [] [])"
    and rd': "redirect_uri ?g \<noteq> af_redirect_uri (demo_authorize_form [] [])"
    by (simp_all add: demo_exchange_def demo_authorize_form_def)
  have cc: "client_checks_pass (demo_store [] []) (T0 + 1000) ?f"
    by (simp add: client_checks_pass_def pkce_applies_def run_defs demo_defs)
  have cc': "\<not> client_checks_pass (demo_store [] []) (T0 + 1000) ?g"
    by (simp add: client_checks_pass_def pkce_applies_def run_defs demo_defs)
  have named: "present (code ?g) \<and> present (client_id ?g)"
    by (simp add: demo_exchange_def present_Some)
  have ev: "fst (handleTokenExchange demo_platform ''jwt-secret'' (demo_store [] []) (T0 + 1000)
                   ''refresh-1'' (Inr ?f))
              = json_response demo_platform 400 json_headers
                  (oauth_error_desc ''invalid_grant'' ''Redirect URI mismatch'')"
    by (simp add: run_defs demo_defs)
  note passing = redirect_uri_binding [OF g c st rd, where P = demo_platform
      and secret = "''jwt-secret''" and uuid = "''refresh-1''"]
  note failing = redirect_uri_binding [OF g' c' st rd', where P = demo_platform
      and secret = "''jwt-secret''" and uuid = "''refresh-1''"]
  have first: "handleTokenExchange demo_platform ''jwt-secret'' (demo_store [] []) (T0 + 1000) ''refresh-1''
        (Inr ?f)
       = (json_response demo_platform 400 json_headers
            (oauth_error_desc ''invalid_grant'' ''Redirect URI mismatch''), demo_store [] [])"
    using ev passing by (simp add: prod_eq_iff)
  have second: "handleTokenExchange demo_platform ''jwt-secret'' (demo_store [] []) (T0 + 1000) ''refresh-1''
        (Inr ?g)
       = (json_response demo_platform 401 json_headers (oauth_error ''invalid_client''),
          demo_store [] [])"
    using failing cc' named by (simp add: prod_eq_iff)
  show ?thesis
    using st cc first cc' second by (intro conjI)
qed

text \<open>
  C8 as stated fails: with a redirect URI that differs from the stored one and a client
  secret that is not the registered one, the answer is \<open>invalid_client\<close> with status 401.
\<close>

theorem redirect_uri_binding_counterexample:
  "kv_get (demo_store [] []) (T0 + 1000) ''auth_code:code-1''
     = Some (auth_code_record (demo_authorize_form [] []) T0)
   \<and> redirect_uri (demo_exchange (Some ''wrong-secret'') ''https://evil.example/cb'' None)
       \<noteq> af_redirect_uri (demo_authorize_form [] [])
   \<and> fst (handleTokenExchange demo_platform ''jwt-secret'' (demo_store [] []) (T0 + 1000) ''refresh-1''
            (Inr (demo_exchange (Some ''wrong-secret'') ''https://evil.example/cb'' None)))
       = \<lparr> status = 401, headers = json_headers,
           body = TextBody (JSON_stringify demo_platform (oauth_error ''invalid_client'')) \<rparr>"
  by (simp add: run_defs demo_defs)

subsection \<open>PKCE\<close>

text \<open>
  With a stored challenge whose method is \<open>S256\<close>, a verifier is checked: a request of a
  registered client with a verifier whose digest is not the challenge is answered
  \<open>invalid_grant\<close>, and one whose digest is the challenge goes on to the checks of the code
  and the redirect URI without any comparison of the client secret.
\<close>

lemma pkce_S256_checked:
  assumes "grant_type f = Some ''authorization_code''" and "code f = Some c" and "c \<noteq> []"
    and "client_id f = Some cid" and "cid \<noteq> []"
    and "kv_get s now (''client:'' @ cid) = Some client"
    and "kv_get s now (''auth_code:'' @ c) = Some (auth_code_record af t)"
    and "af_code_challenge af = Some challenge" and "challenge \<noteq> []"
    and "af_code_challenge_method af = Some ''S256''"
    and "code_verifier f = Some v" and "v \<noteq> []"
  shows "handleTokenExchange P secret s now uuid (Inr f) =
     (if pkce_s256 P v \<noteq> challenge then
        (json_response P 400 json_headers
           (oauth_error_desc ''invalid_grant'' ''PKCE verification failed''), s)
      else issue_tokens P secret s now uuid f (auth_code_record af t))"
  using assms
  by (simp add: handleTokenExchange_def js_get_auth_code_record present_Some form_json_def Let_def)

text \<open>
  C3 at an input where the code departs from it. The authorization request carried a
  \<open>code_challenge\<close> and no \<open>code_challenge_method\<close>, so the stored method is the empty
  string. The exchange sends a verifier that has nothing to do with the challenge, and is
  answered with tokens, on every platform, that is whatever the digest of the verifier is.
\<close>

theorem pkce_without_S256_accepts_any_verifier:
  "handleTokenExchange P secret
     (demo_store ''E9Melhoa2OwvFrEMTJguCHaoeK1t8URWbuGJSstw-cM'' []) (T0 + 1000) uuid
     (Inr (demo_exchange None ''https://app.example/cb'' (Some ''not-the-verifier'')))
   = (json_response P 200 token_headers
        (token_response
           (generateJWT P secret (T0 + 1000) (access_claims ''client-1'' (JStr ''marvin-key'') (T0 + 1000)))
           uuid),
      kv_delete
        (kv_put (demo_store ''E9Melhoa2OwvFrEMTJguCHaoeK1t8URWbuGJSstw-cM'' []) (T0 + 1000)
           (''refresh_token:'' @ uuid)
           (refresh_record ''client-1'' (JStr ''marvin-key'') (T0 + 1000)) (86400 * 30))
        ''auth_code:code-1'')"
  by (simp add: handleTokenExchange_def issue_tokens_def demo_store_def demo_clients_def
        demo_exchange_def demo_authorize_form_def js_get_auth_code_record kv_get_put
        present_def form_json_def T0_def Let_def)

theorem pkce_without_S256_accepts_any_verifier_witness:
  "pkce_s256 demo_platform ''not-the-verifier'' \<noteq> ''E9Melhoa2OwvFrEMTJguCHaoeK1t8URWbuGJSstw-cM''
   \<and> status (fst (handleTokenExchange demo_platform ''jwt-secret''
          (demo_store ''E9Melhoa2OwvFrEMTJguCHaoeK1t8URWbuGJSstw-cM'' []) (T0 + 1000) ''refresh-1''
          (Inr (demo_exchange None ''https://app.example/cb'' (Some ''not-the-verifier''))))) = 200"
proof -
  have "pkce_s256 demo_platform ''not-the-verifier'' \<noteq> ''E9Melhoa2OwvFrEMTJguCHaoeK1t8URWbuGJSstw-cM''"
    by (simp add: pkce_s256_def demo_platform_def)
  then show ?thesis
    using pkce_without_S256_accepts_any_verifier
            [where P = demo_platform and secret = "''jwt-secret''" and uuid = "''refresh-1''"]
    by (simp add: json_response_def)
qed

subsection \<open>Refresh tokens\<close>

lemma refresh_success:
  assumes "handleRefreshToken P secret s now new (Some old) (Some cid) csec = (r, s1)"
    and "status r = 200"
  shows "\<exists>tokenData. kv_get s now (''refresh_token:'' @ old) = Some tokenData
           \<and> js_get tokenData ''client_id'' = JStr cid \<and> old \<noteq> [] \<and> cid \<noteq> []
           \<and> r = json_response P 200 token_headers
                 (token_response
                    (generateJWT P secret now (access_claims cid (js_get tokenData ''api_key'') now)) new)
           \<and> s1 = kv_delete
                    (kv_put s now (''refresh_token:'' @ new)
                       (refresh_record cid (js_get tokenData ''api_key'') now) (86400 * 30))
                    (''refresh_token:'' @ old)"
  using assms
  by (auto simp: handleRefreshToken_def json_response_def present_Some form_json_def Let_def
      split: option.splits if_splits)

lemma refresh_absent:
  assumes "kv_get s now (''refresh_token:'' @ tok) = None" and "tok \<noteq> []" and "cid \<noteq> []"
  shows "handleRefreshToken P secret s now uuid (Some tok) (Some cid) csec =
     (json_response P 400 json_headers
        (oauth_error_desc ''invalid_grant'' ''Invalid or expired refresh token''), s)"
  using assms by (simp add: handleRefreshToken_def present_Some)

lemma refresh_present:
  assumes "kv_get s now (''refresh_token:'' @ tok) = Some (refresh_record cid apiKey t)"
    and "tok \<noteq> []" and "cid \<noteq> []"
  shows "handleRefreshToken P secret s now uuid (Some tok) (Some cid) csec =
     (json_response P 200 token_headers
        (token_response (generateJWT P secret now (access_claims cid apiKey now)) uuid),
      kv_delete
        (kv_put s now (''refresh_token:'' @ uuid) (refresh_record cid apiKey now) (86400 * 30))
        (''refresh_token:'' @ tok))"
  using assms by (simp add: handleRefreshToken_def present_Some refresh_record_def form_json_def Let_def)

text \<open>
  C4. A successful refresh answers with one new refresh token, the UUID drawn in the call,
  stores it and deletes the one presented; nothing else in the store changes. From then on
  a request presenting the old token is answered \<open>invalid_grant\<close>. The new token, presented
  by the same client within its 30 days, is accepted, once: after that use it is answered
  \<open>invalid_grant\<close> too. The requests are refresh requests that name a client, and the new
  UUID differs from the token presented.
\<close>

theorem refresh_token_rotation:
  assumes first: "handleRefreshToken P secret s now new (Some old) (Some cid) csec = (r, s1)"
    and ok: "status r = 200"
    and fresh: "new \<noteq> old" "new \<noteq> []"
    and named: "cid' \<noteq> []"
    and live: "now' div 1000 < now div 1000 + 86400 * 30"
  shows "(\<exists>accessToken. r = json_response P 200 token_headers (token_response accessToken new))
     \<and> s1 (''refresh_token:'' @ old) = None
     \<and> (\<exists>stored. s1 (''refresh_token:'' @ new) = Some stored)
     \<and> (\<forall>k. k \<noteq> ''refresh_token:'' @ old \<and> k \<noteq> ''refresh_token:'' @ new \<longrightarrow> s1 k = s k)
     \<and> handleRefreshToken P secret s1 now' uuid' (Some old) (Some cid') csec' =
         (json_response P 400 json_headers
            (oauth_error_desc ''invalid_grant'' ''Invalid or expired refresh token''), s1)
     \<and> status (fst (handleRefreshToken P secret s1 now' uuid' (Some new) (Some cid) csec')) = 200
     \<and> handleRefreshToken P secret
          (snd (handleRefreshToken P secret s1 now' uuid' (Some new) (Some cid) csec'))
          now'' uuid'' (Some new) (Some cid') csec'' =
         (json_response P 400 json_headers
            (oauth_error_desc ''invalid_grant'' ''Invalid or expired refresh token''),
          snd (handleRefreshToken P secret s1 now' uuid' (Some new) (Some cid) csec'))"
proof -
  from refresh_success [OF first ok] obtain tokenData where
    ne: "old \<noteq> []" "cid \<noteq> []"
    and r: "r = json_response P 200 token_headers
                 (token_response
                    (generateJWT P secret now (access_claims cid (js_get tokenData ''api_key'') now)) new)"
    and s1: "s1 = kv_delete
                    (kv_put s now (''refresh_token:'' @ new)
                       (refresh_record cid (js_get tokenData ''api_key'') now) (86400 * 30))
                    (''refresh_token:'' @ old)"
    by blast
  let ?rec = "refresh_record cid (js_get tokenData ''api_key'') now"
  have a: "\<exists>accessToken. r = json_response P 200 token_headers (token_response accessToken new)"
    using r by blast
  have b: "s1 (''refresh_token:'' @ old) = None"
    by (simp add: s1 kv_delete_def)
  have c: "\<exists>stored. s1 (''refresh_token:'' @ new) = Some stored"
    using fresh(1) by (simp add: s1 kv_delete_def kv_put_def)
  have d: "\<forall>k. k \<noteq> ''refresh_token:'' @ old \<and> k \<noteq> ''refresh_token:'' @ new \<longrightarrow> s1 k = s k"
    by (simp add: s1 kv_delete_def kv_put_def)
  have old_gone: "kv_get s1 now' (''refresh_token:'' @ old) = None"
    using b by (rule kv_get_absent)
  have e: "handleRefreshToken P secret s1 now' uuid' (Some old) (Some cid') csec' =
         (json_response P 400 json_headers
            (oauth_error_desc ''invalid_grant'' ''Invalid or expired refresh token''), s1)"
    using old_gone ne(1) named by (rule refresh_absent)
  have new_there: "kv_get s1 now' (''refresh_token:'' @ new) = Some ?rec"
    using fresh(1) live by (simp add: s1 kv_get_delete kv_get_put)
  note second = refresh_present [OF new_there fresh(2) ne(2), of P secret uuid' csec']
  have f: "status (fst (handleRefreshToken P secret s1 now' uuid' (Some new) (Some cid) csec')) = 200"
    by (simp add: second json_response_def)
  have new_gone: "kv_get (snd (handleRefreshToken P secret s1 now' uuid' (Some new) (Some cid) csec'))
                    now'' (''refresh_token:'' @ new) = None"
    by (simp add: second kv_get_delete)
  have g: "handleRefreshToken P secret
          (snd (handleRefreshToken P secret s1 now' uuid' (Some new) (Some cid) csec'))
          now'' uuid'' (Some new) (Some cid') csec'' =
         (json_response P 400 json_headers
            (oauth_error_desc ''invalid_grant'' ''Invalid or expired refresh token''),
          snd (handleRefreshToken P secret s1 now' uuid' (Some new) (Some cid) csec'))"
    using new_gone fresh(2) named by (rule refresh_absent)
  show ?thesis
    using a b c d e f g by (intro conjI)
qed

theorem refresh_token_rotation_witness:
  "status (fst (handleRefreshToken demo_platform ''jwt-secret'' demo_refresh_store (T0 + 1000)
             ''refresh-2'' (Some ''refresh-1'') (Some ''client-1'') None)) = 200
   \<and> handleRefreshToken demo_platform ''jwt-secret''
        (snd (handleRefreshToken demo_platform ''jwt-secret'' demo_refresh_store (T0 + 1000)
                ''refresh-2'' (Some ''refresh-1'') (Some ''client-1'') None))
        (T0 + 2000) ''refresh-3'' (Some ''refresh-1'') (Some ''client-1'') None
       = (json_response demo_platform 400 json_headers
            (oauth_error_desc ''invalid_grant'' ''Invalid or expired refresh token''),
          snd (handleRefreshToken demo_platform ''jwt-secret'' demo_refresh_store (T0 + 1000)
                ''refresh-2'' (Some ''refresh-1'') (Some ''client-1'') None))
   \<and> status (fst (handleRefreshToken demo_platform ''jwt-secret''
        (snd (handleRefreshToken demo_platform ''jwt-secret'' demo_refresh_store (T0 + 1000)
                ''refresh-2'' (Some ''refresh-1'') (Some ''client-1'') None))
        (T0 + 2000) ''refresh-3'' (Some ''refresh-2'') (Some ''client-1'') None)) = 200"
proof -
  let ?first = "handleRefreshToken demo_platform ''jwt-secret'' demo_refresh_store (T0 + 1000)
                  ''refresh-2'' (Some ''refresh-1'') (Some ''client-1'') None"
  have h1: "?first = (fst ?first, snd ?first)" by simp
  have h2: "status (fst ?first) = 200" by (simp add: run_defs demo_defs)
  have h3: "''refresh-2'' \<noteq> ''refresh-1''" "''refresh-2'' \<noteq> []" "''client-1'' \<noteq> []" by simp_all
  have h4: "(T0 + 2000) div 1000 < (T0 + 1000) div 1000 + 86400 * 30" by (simp add: T0_def)
  show ?thesis
    using h2 refresh_token_rotation [OF h1 h2 h3 h4, where uuid' = "''refresh-3''" and csec' = None
        and uuid'' = "''refresh-4''" and csec'' = None and now'' = "T0 + 3000"]
    by simp
qed

subsection \<open>Protocol endpoint\<close>

lemma tools_call_not_returned: "tools_call P params userInfo \<noteq> Returned b"
  by (simp add: tools_call_def)

lemma dispatch_transport:
  "dispatch P method params userInfo cors True =
     (case dispatch P method params userInfo cors False of
        Result r \<Rightarrow> Result r
      | Threw e \<Rightarrow> Threw e
      | Returned b \<Rightarrow> Returned \<lparr> status = 200, headers = sse_headers cors, body = StreamBody [] \<rparr>)"
  by (simp add: dispatch_def tools_call_not_returned split: sum.splits dispatched.splits)

lemma dispatch_returned_buffered:
  "dispatch P method params userInfo cors False = Returned b
     \<Longrightarrow> b = \<lparr> status = 204, headers = cors, body = NullBody \<rparr>"
  by (simp add: dispatch_def tools_call_not_returned split: if_splits sum.splits)

text \<open>
  C5. Whatever the request and the caller, the two transports carry the same serialised
  JSON-RPC object, result or error: the stream holds the single event \<open>data: \<close>, the text
  of the buffered body, and two line feeds. A notification has no payload in either: the
  buffered response has no body and the stream no event. A request that makes the handler
  throw does so in both.
\<close>

theorem transport_symmetry:
  "(case handleMCPRequest P mcpRequest userInfo cors False of
      Inl e \<Rightarrow> handleMCPRequest P mcpRequest userInfo cors True = Inl e
    | Inr buffered \<Rightarrow>
        (case body buffered of
           TextBody payload \<Rightarrow>
             handleMCPRequest P mcpRequest userInfo cors True =
               Inr \<lparr> status = 200, headers = sse_headers cors,
                     body = StreamBody [''data: '' @ payload @ [CHR 0x0A, CHR 0x0A]] \<rparr>
         | NullBody \<Rightarrow>
             handleMCPRequest P mcpRequest userInfo cors True =
               Inr \<lparr> status = 200, headers = sse_headers cors, body = StreamBody [] \<rparr>
         | StreamBody chunks \<Rightarrow> False))"
proof (cases "js_get_strict P mcpRequest ''method''")
  case (Inl e)
  then show ?thesis by (simp add: handleMCPRequest_def)
next
  case (Inr m)
  show ?thesis
  proof (cases "dispatch P m (js_get mcpRequest ''params'') userInfo cors False")
    case (Result r)
    then show ?thesis
      using Inr by (simp add: handleMCPRequest_def dispatch_transport deliver_def)
  next
    case (Returned b)
    then have "b = \<lparr> status = 204, headers = cors, body = NullBody \<rparr>"
      by (rule dispatch_returned_buffered)
    then show ?thesis
      using Inr Returned by (simp add: handleMCPRequest_def dispatch_transport)
  next
    case (Threw e)
    then show ?thesis
      using Inr by (simp add: handleMCPRequest_def dispatch_transport deliver_def)
  qed
qed

theorem transport_symmetry_witness:
  "handleMCPRequest demo_platform
     (JObj [(''jsonrpc'', JStr ''2.0''), (''id'', JNum 7), (''method'', JStr ''ping'')])
     hardcoded_userInfo corsHeaders False
     = Inr \<lparr> status = 200, headers = buffered_headers corsHeaders,
             body = TextBody (JSON_stringify demo_platform
                      (success_response (JNum 7) (JObj [(''status'', JStr ''pong'')]))) \<rparr>
   \<and> handleMCPRequest demo_platform
     (JObj [(''jsonrpc'', JStr ''2.0''), (''id'', JNum 7), (''method'', JStr ''ping'')])
     hardcoded_userInfo corsHeaders True
     = Inr \<lparr> status = 200, headers = sse_headers corsHeaders,
             body = StreamBody [''data: '' @ JSON_stringify demo_platform
                      (success_response (JNum 7) (JObj [(''status'', JStr ''pong'')]))
                      @ [CHR 0x0A, CHR 0x0A]] \<rparr>"
proof -
  let ?ping = "JObj [(''jsonrpc'', JStr ''2.0''), (''id'', JNum 7), (''method'', JStr ''ping'')]"
  have buffered: "handleMCPRequest demo_platform ?ping hardcoded_userInfo corsHeaders False
     = Inr \<lparr> status = 200, headers = buffered_headers corsHeaders,
             body = TextBody (JSON_stringify demo_platform
                      (success_response (JNum 7) (JObj [(''status'', JStr ''pong'')]))) \<rparr>"
    by (simp add: handleMCPRequest_def js_get_strict_def dispatch_def deliver_def)
  show ?thesis
    using buffered
      transport_symmetry [where P = demo_platform and mcpRequest = ?ping
        and userInfo = hardcoded_userInfo and cors = corsHeaders]
    by simp
qed





text \<open>
  C1 at an input where the code departs from it. A \<open>tools/call\<close> of \<open>get_tasks\<close> that
  comes with no \<open>Authorization\<close> header is not refused: it is answered with the result of
  the tool, run with the API key written in \<open>fetch\<close>. The header is never read: two
  requests that differ in it alone, for any method and any tool, get the same response.
\<close>

theorem tool_call_served_without_token:
  "fetch_root P \<lparr> http_method = ''POST'', accept = None, authorization = None,
       json_body = Inr (JObj [(''jsonrpc'', JStr ''2.0''), (''id'', JNum 1),
                              (''method'', JStr ''tools/call''),
                              (''params'', JObj [(''name'', JStr ''get_tasks''),
                                                 (''arguments'', JObj [])])]) \<rparr>
     = \<lparr> status = 200, headers = buffered_headers corsHeaders,
         body = TextBody (JSON_stringify P
           (success_response (JNum 1)
              (text_content (JSON_stringify_pretty P
                 (handleToolCall P (JStr ''7jRRMJUcqfAxQTFABtEMytsAf4I='') (JStr ''get_tasks'')
                    (JObj [])))))) \<rparr>
   \<and> fetch_root P (request \<lparr> authorization := header \<rparr>) = fetch_root P request"
  by (simp add: fetch_root_def handleMCPRequest_def js_get_strict_def dispatch_def tools_call_def
        hardcoded_userInfo_def js_or_def deliver_def Let_def)

theorem tool_call_served_without_token_witness:
  "status (fetch_root demo_platform
      \<lparr> http_method = ''POST'', accept = None, authorization = None,
        json_body = Inr (JObj [(''jsonrpc'', JStr ''2.0''), (''id'', JNum 1),
                               (''method'', JStr ''tools/call''),
                               (''params'', JObj [(''name'', JStr ''get_tasks''),
                                                  (''arguments'', JObj [])])]) \<rparr>) = 200
   \<and> fetch_root demo_platform
      \<lparr> http_method = ''POST'', accept = None, authorization = Some ''Bearer not-a-token'',
        json_body = Inr (JObj [(''jsonrpc'', JStr ''2.0''), (''id'', JNum 1),
                               (''method'', JStr ''tools/call''),
                               (''params'', JObj [(''name'', JStr ''get_tasks''),
                                                  (''arguments'', JObj [])])]) \<rparr>
     = fetch_root demo_platform
      \<lparr> http_method = ''POST'', accept = None, authorization = None,
        json_body = Inr (JObj [(''jsonrpc'', JStr ''2.0''), (''id'', JNum 1),
                               (''method'', JStr ''tools/call''),
                               (''params'', JObj [(''name'', JStr ''get_tasks''),
                                                  (''arguments'', JObj [])])]) \<rparr>"
  using tool_call_served_without_token
    [where P = demo_platform and header = "Some ''Bearer not-a-token''"
       and request = "\<lparr> http_method = ''POST'', accept = None, authorization = None,
        json_body = Inr (JObj [(''jsonrpc'', JStr ''2.0''), (''id'', JNum 1),
                               (''method'', JStr ''tools/call''),
                               (''params'', JObj [(''name'', JStr ''get_tasks''),
                                                  (''arguments'', JObj [])])]) \<rparr>"]
  by simp

subsection \<open>Cache eviction\<close>

lemma invalidateCache_apply:
  "invalidateCache prefixes d c k = (if k \<in> set (evicted_keys d) then None else c k)"
  by (simp add: invalidateCache_def evicted_keys_def kv_delete_def)










lemma other_keys_not_evicted:
  "''labels:all'' \<notin> set (evicted_keys d)"
  "''categories:all'' \<notin> set (evicted_keys d)"
  "''due_items:'' @ d' \<notin> set (evicted_keys d)"
  "''all_tasks:'' @ label @ '':'' @ part \<notin> set (evicted_keys d)"
  "label \<noteq> ''none'' \<Longrightarrow> ''all_tasks:'' @ label \<notin> set (evicted_keys d)"
  "CHR '':'' \<notin> set d \<Longrightarrow> ''completed:'' @ days @ '':'' @ d' \<notin> set (evicted_keys d)"
  by (auto simp: evicted_keys_def append_eq_Cons_conv append_eq_append_conv2)

text \<open>What the reads that follow a create write: their own keys, nothing else.\<close>

lemma getCachedOrFetch_other:
  "k \<noteq> cacheKey \<Longrightarrow> snd (getCachedOrFetch E c cacheKey endpoint ttl) k = c k"
  by (simp add: getCachedOrFetch_def kv_put_def split: option.splits sum.splits)


lemma getLabels_other: "k \<noteq> ''labels:all'' \<Longrightarrow> snd (getLabels E c) k = c k"
  using getCachedOrFetch_other [of k "''labels:all''" E c "''/labels''" CACHE_TTL]
  by (auto simp: getLabels_def split: prod.splits sum.splits)

lemma getCategories_other: "k \<noteq> ''categories:all'' \<Longrightarrow> snd (getCategories E c) k = c k"
  using getCachedOrFetch_other [of k "''categories:all''" E c "''/categories''" CACHE_TTL]
  by (auto simp: getCategories_def split: prod.splits sum.splits)

lemma getProjects_snd:
  "snd (getProjects E c) =
     snd (getLabels E (snd (getCachedOrFetch E c ''projects:all'' ''/categories'' CACHE_TTL)))"
  by (simp add: getProjects_def split: prod.splits sum.splits)



lemma createTask_snd:
  assumes "task_payload E x = Inr payload" and "makeRequest E ''/addTask'' ''POST'' payload = Inr newTask"
  shows "snd (createTask E c x) =
     snd (getLabels E (snd (getCategories E (snd (getProjects E (invalidateCache [] (today E) c))))))"
  using assms by (simp add: createTask_def invalidateCache_def split: prod.splits sum.splits)








subsection \<open>Batch operations\<close>

lemma run_items_length: "length (fst (run_items operation w xs)) = length xs"
proof (induction xs arbitrary: w)
  case Nil
  then show ?case by simp
next
  case (Cons x xs)
  obtain r w1 where step: "operation w x = (r, w1)" by (cases "operation w x")
  obtain rs w2 where rest: "run_items operation w1 xs = (rs, w2)"
    by (cases "run_items operation w1 xs")
  have "length rs = length xs" using Cons.IH [of w1] rest by simp
  then show ?case by (simp add: step rest)
qed

lemma length_filter_split:
  "length (filter (\<lambda>x. \<not> P x) xs) = length xs - length (filter P xs)"
  using sum_length_filter_compl [of P xs] by simp

text \<open>
  The outcome of a single operation does not depend on what the earlier items of a batch
  left in the cache. \<open>markTaskDone\<close> reads no cache. \<open>createTask\<close> reads the projects,
  which it has just evicted and so fetches, and the labels and the categories, whose
  entries no write evicts.
\<close>

lemma getCachedOrFetch_fst_cong:
  "c' k = c k \<Longrightarrow> fst (getCachedOrFetch E c' k endpoint ttl) = fst (getCachedOrFetch E c k endpoint ttl)"
  by (simp add: getCachedOrFetch_def kv_get_def split: option.splits sum.splits)

lemma getCachedOrFetch_fst_again:
  "0 < ttl \<Longrightarrow>
     fst (getCachedOrFetch E (snd (getCachedOrFetch E c k endpoint ttl)) k endpoint ttl)
       = fst (getCachedOrFetch E c k endpoint ttl)"
  by (simp add: getCachedOrFetch_def kv_get_put split: option.splits sum.splits)

lemma getCachedOrFetch_fst_evicted:
  "c k = None \<Longrightarrow> fst (getCachedOrFetch E c k endpoint ttl) = makeRequest E endpoint ''GET'' JUndefined"
  by (simp add: getCachedOrFetch_def kv_get_absent split: sum.splits)

lemma getLabels_fst:
  "fst (getLabels E c) =
     (case fst (getCachedOrFetch E c ''labels:all'' ''/labels'' CACHE_TTL) of
        Inl e \<Rightarrow> Inl e | Inr labels \<Rightarrow> cleanLabels E labels)"
  by (simp add: getLabels_def split: prod.splits sum.splits)

lemma getCategories_fst:
  "fst (getCategories E c) =
     (case fst (getCachedOrFetch E c ''categories:all'' ''/categories'' CACHE_TTL) of
        Inl e \<Rightarrow> Inl e | Inr categories \<Rightarrow> cleanCategories E categories)"
  by (simp add: getCategories_def split: prod.splits sum.splits)

lemma getLabels_snd:
  "snd (getLabels E c) = snd (getCachedOrFetch E c ''labels:all'' ''/labels'' CACHE_TTL)"
  by (simp add: getLabels_def split: prod.splits sum.splits)

lemma getCategories_snd:
  "snd (getCategories E c) = snd (getCachedOrFetch E c ''categories:all'' ''/categories'' CACHE_TTL)"
  by (simp add: getCategories_def split: prod.splits sum.splits)

lemma getProjects_fst:
  "fst (getProjects E c) =
     (case fst (getCachedOrFetch E c ''projects:all'' ''/categories'' CACHE_TTL) of
        Inl e \<Rightarrow> Inl e
      | Inr categories \<Rightarrow>
          (case fst (getLabels E (snd (getCachedOrFetch E c ''projects:all'' ''/categories'' CACHE_TTL))) of
             Inl e \<Rightarrow> Inl e
           | Inr labels \<Rightarrow> cleanProjects E categories labels))"
  by (simp add: getProjects_def split: prod.splits sum.splits)

text \<open>
  What a read of the labels or of the categories answers is the same before and after an
  eviction and before and after any other read: the two keys are never evicted, and a
  read that fetched leaves what it fetched.
\<close>

lemma labels_answer_kept:
  "fst (getCachedOrFetch E (invalidateCache prefixes d c) ''labels:all'' ''/labels'' CACHE_TTL)
     = fst (getCachedOrFetch E c ''labels:all'' ''/labels'' CACHE_TTL)"
  "fst (getCachedOrFetch E (snd (getCachedOrFetch E c ''projects:all'' ''/categories'' CACHE_TTL))
          ''labels:all'' ''/labels'' CACHE_TTL)
     = fst (getCachedOrFetch E c ''labels:all'' ''/labels'' CACHE_TTL)"
  "fst (getCachedOrFetch E (snd (getLabels E c)) ''labels:all'' ''/labels'' CACHE_TTL)
     = fst (getCachedOrFetch E c ''labels:all'' ''/labels'' CACHE_TTL)"
  "fst (getCachedOrFetch E (snd (getCategories E c)) ''labels:all'' ''/labels'' CACHE_TTL)
     = fst (getCachedOrFetch E c ''labels:all'' ''/labels'' CACHE_TTL)"
proof -
  show "fst (getCachedOrFetch E (invalidateCache prefixes d c) ''labels:all'' ''/labels'' CACHE_TTL)
     = fst (getCachedOrFetch E c ''labels:all'' ''/labels'' CACHE_TTL)"
    by (rule getCachedOrFetch_fst_cong) (simp add: invalidateCache_apply other_keys_not_evicted)
  show "fst (getCachedOrFetch E (snd (getCachedOrFetch E c ''projects:all'' ''/categories'' CACHE_TTL))
          ''labels:all'' ''/labels'' CACHE_TTL)
     = fst (getCachedOrFetch E c ''labels:all'' ''/labels'' CACHE_TTL)"
    by (rule getCachedOrFetch_fst_cong) (simp add: getCachedOrFetch_other)
  show "fst (getCachedOrFetch E (snd (getLabels E c)) ''labels:all'' ''/labels'' CACHE_TTL)
     = fst (getCachedOrFetch E c ''labels:all'' ''/labels'' CACHE_TTL)"
    unfolding getLabels_snd by (rule getCachedOrFetch_fst_again) (simp add: CACHE_TTL_def)
  show "fst (getCachedOrFetch E (snd (getCategories E c)) ''labels:all'' ''/labels'' CACHE_TTL)
     = fst (getCachedOrFetch E c ''labels:all'' ''/labels'' CACHE_TTL)"
    by (rule getCachedOrFetch_fst_cong) (simp add: getCategories_other)
qed

lemma categories_answer_kept:
  "fst (getCachedOrFetch E (invalidateCache prefixes d c) ''categories:all'' ''/categories'' CACHE_TTL)
     = fst (getCachedOrFetch E c ''categories:all'' ''/categories'' CACHE_TTL)"
  "fst (getCachedOrFetch E (snd (getCachedOrFetch E c ''projects:all'' ''/categories'' CACHE_TTL))
          ''categories:all'' ''/categories'' CACHE_TTL)
     = fst (getCachedOrFetch E c ''categories:all'' ''/categories'' CACHE_TTL)"
  "fst (getCachedOrFetch E (snd (getLabels E c)) ''categories:all'' ''/categories'' CACHE_TTL)
     = fst (getCachedOrFetch E c ''categories:all'' ''/categories'' CACHE_TTL)"
  "fst (getCachedOrFetch E (snd (getCategories E c)) ''categories:all'' ''/categories'' CACHE_TTL)
     = fst (getCachedOrFetch E c ''categories:all'' ''/categories'' CACHE_TTL)"
proof -
  show "fst (getCachedOrFetch E (invalidateCache prefixes d c) ''categories:all'' ''/categories'' CACHE_TTL)
     = fst (getCachedOrFetch E c ''categories:all'' ''/categories'' CACHE_TTL)"
    by (rule getCachedOrFetch_fst_cong) (simp add: invalidateCache_apply other_keys_not_evicted)
  show "fst (getCachedOrFetch E (snd (getCachedOrFetch E c ''projects:all'' ''/categories'' CACHE_TTL))
          ''categories:all'' ''/categories'' CACHE_TTL)
     = fst (getCachedOrFetch E c ''categories:all'' ''/categories'' CACHE_TTL)"
    by (rule getCachedOrFetch_fst_cong) (simp add: getCachedOrFetch_other)
  show "fst (getCachedOrFetch E (snd (getLabels E c)) ''categories:all'' ''/categories'' CACHE_TTL)
     = fst (getCachedOrFetch E c ''categories:all'' ''/categories'' CACHE_TTL)"
    by (rule getCachedOrFetch_fst_cong) (simp add: getLabels_other)
  show "fst (getCachedOrFetch E (snd (getCategories E c)) ''categories:all'' ''/categories'' CACHE_TTL)
     = fst (getCachedOrFetch E c ''categories:all'' ''/categories'' CACHE_TTL)"
    unfolding getCategories_snd by (rule getCachedOrFetch_fst_again) (simp add: CACHE_TTL_def)
qed

lemmas answers_kept = labels_answer_kept categories_answer_kept getProjects_snd

lemma createTask_fst:
  "fst (createTask E c x) =
     (case task_payload E x of
        Inl e \<Rightarrow> Inl e
      | Inr payload \<Rightarrow>
          (case makeRequest E ''/addTask'' ''POST'' payload of
             Inl e \<Rightarrow> Inl e
           | Inr newTask \<Rightarrow>
               (case fst (getProjects E (invalidateCache [] (today E) c)) of
                  Inl e \<Rightarrow> Inl e
                | Inr projects \<Rightarrow>
                    (case fst (getCategories E (snd (getProjects E (invalidateCache [] (today E) c)))) of
                       Inl e \<Rightarrow> Inl e
                     | Inr categories \<Rightarrow>
                         (case fst (getLabels E (snd (getCategories E
                                     (snd (getProjects E (invalidateCache [] (today E) c)))))) of
                            Inl e \<Rightarrow> Inl e
                          | Inr labels \<Rightarrow>
                              (case convertTask E newTask projects categories labels of
                                 Inl e \<Rightarrow> Inl e
                               | Inr cleanTask \<Rightarrow>
                                   Inr (createResponse E (JObj cleanTask)
                                     (''Created task: ''
                                        @ to_string (rt E) (js_get (JObj cleanTask) ''title''))
                                     None)))))))"
  by (simp add: createTask_def invalidateCache_def split: prod.splits sum.splits)

lemma createTask_outcome:
  "fst (createTask E c x) =
     (case task_payload E x of
        Inl e \<Rightarrow> Inl e
      | Inr payload \<Rightarrow>
          (case makeRequest E ''/addTask'' ''POST'' payload of
             Inl e \<Rightarrow> Inl e
           | Inr newTask \<Rightarrow>
               (case (case makeRequest E ''/categories'' ''GET'' JUndefined of
                        Inl e \<Rightarrow> Inl e
                      | Inr categories \<Rightarrow>
                          (case (case fst (getCachedOrFetch E c ''labels:all'' ''/labels'' CACHE_TTL) of
                                   Inl e \<Rightarrow> Inl e | Inr labels \<Rightarrow> cleanLabels E labels) of
                             Inl e \<Rightarrow> Inl e
                           | Inr labels \<Rightarrow> cleanProjects E categories labels)) of
                  Inl e \<Rightarrow> Inl e
                | Inr projects \<Rightarrow>
                    (case (case fst (getCachedOrFetch E c ''categories:all'' ''/categories'' CACHE_TTL) of
                             Inl e \<Rightarrow> Inl e | Inr categories \<Rightarrow> cleanCategories E categories) of
                       Inl e \<Rightarrow> Inl e
                     | Inr categories \<Rightarrow>
                         (case (case fst (getCachedOrFetch E c ''labels:all'' ''/labels'' CACHE_TTL) of
                                  Inl e \<Rightarrow> Inl e | Inr labels \<Rightarrow> cleanLabels E labels) of
                            Inl e \<Rightarrow> Inl e
                          | Inr labels \<Rightarrow>
                              (case convertTask E newTask projects categories labels of
                                 Inl e \<Rightarrow> Inl e
                               | Inr cleanTask \<Rightarrow>
                                   Inr (createResponse E (JObj cleanTask)
                                     (''Created task: ''
                                        @ to_string (rt E) (js_get (JObj cleanTask) ''title''))
                                     None)))))))"
proof -
  have gone: "invalidateCache [] (today E) c ''projects:all'' = None"
    by (simp add: invalidateCache_apply evicted_keys_def)
  have fetched: "fst (getCachedOrFetch E (invalidateCache [] (today E) c) ''projects:all'' ''/categories'' CACHE_TTL)
                   = makeRequest E ''/categories'' ''GET'' JUndefined"
    using gone by (rule getCachedOrFetch_fst_evicted)
  show ?thesis
    unfolding createTask_fst getProjects_fst getCategories_fst getLabels_fst getProjects_snd
      getLabels_snd getCategories_snd fetched
    by (simp only: answers_kept getLabels_snd [symmetric] getCategories_snd [symmetric])
qed


lemma createTask_answers_kept:
  "fst (getCachedOrFetch E (snd (createTask E c x)) ''labels:all'' ''/labels'' CACHE_TTL)
     = fst (getCachedOrFetch E c ''labels:all'' ''/labels'' CACHE_TTL)"
  "fst (getCachedOrFetch E (snd (createTask E c x)) ''categories:all'' ''/categories'' CACHE_TTL)
     = fst (getCachedOrFetch E c ''categories:all'' ''/categories'' CACHE_TTL)"
proof -
  have "snd (createTask E c x) = c
      \<or> snd (createTask E c x)
          = snd (getLabels E (snd (getCategories E (snd (getProjects E (invalidateCache [] (today E) c))))))"
  proof (cases "task_payload E x")
    case (Inl e)
    then show ?thesis by (simp add: createTask_def)
  next
    case (Inr payload)
    show ?thesis
    proof (cases "makeRequest E ''/addTask'' ''POST'' payload")
      case (Inl e)
      then show ?thesis using Inr by (simp add: createTask_def)
    next
      case accepted: (Inr newTask)
      show ?thesis using createTask_snd [OF Inr accepted] by simp
    qed
  qed
  then show "fst (getCachedOrFetch E (snd (createTask E c x)) ''labels:all'' ''/labels'' CACHE_TTL)
     = fst (getCachedOrFetch E c ''labels:all'' ''/labels'' CACHE_TTL)"
    and "fst (getCachedOrFetch E (snd (createTask E c x)) ''categories:all'' ''/categories'' CACHE_TTL)
     = fst (getCachedOrFetch E c ''categories:all'' ''/categories'' CACHE_TTL)"
    by (auto simp: answers_kept)
qed

lemma createTask_fst_cong:
  assumes "fst (getCachedOrFetch E c' ''labels:all'' ''/labels'' CACHE_TTL)
             = fst (getCachedOrFetch E c ''labels:all'' ''/labels'' CACHE_TTL)"
    and "fst (getCachedOrFetch E c' ''categories:all'' ''/categories'' CACHE_TTL)
             = fst (getCachedOrFetch E c ''categories:all'' ''/categories'' CACHE_TTL)"
  shows "fst (createTask E c' x) = fst (createTask E c x)"
  by (simp only: createTask_outcome assms)

lemma run_items_createTask:
  assumes "fst (getCachedOrFetch E c' ''labels:all'' ''/labels'' CACHE_TTL)
             = fst (getCachedOrFetch E c ''labels:all'' ''/labels'' CACHE_TTL)"
    and "fst (getCachedOrFetch E c' ''categories:all'' ''/categories'' CACHE_TTL)
             = fst (getCachedOrFetch E c ''categories:all'' ''/categories'' CACHE_TTL)"
  shows "fst (run_items (createTask E) c' xs) = map (\<lambda>x. fst (createTask E c x)) xs"
  using assms
proof (induction xs arbitrary: c')
  case Nil
  then show ?case by simp
next
  case (Cons x xs)
  obtain r w1 where step: "createTask E c' x = (r, w1)" by (cases "createTask E c' x")
  obtain rs w2 where rest: "run_items (createTask E) w1 xs = (rs, w2)"
    by (cases "run_items (createTask E) w1 xs")
  have r: "r = fst (createTask E c x)"
    using createTask_fst_cong [OF Cons.prems, of x] step by simp
  have w1: "w1 = snd (createTask E c' x)" using step by simp
  have "fst (run_items (createTask E) w1 xs) = map (\<lambda>x. fst (createTask E c x)) xs"
    using Cons.prems by (intro Cons.IH) (simp_all add: w1 createTask_answers_kept)
  then show ?case by (simp add: step rest r)
qed

lemma markTaskDone_fst:
  "fst (markTaskDone E c taskId) =
     (case makeRequest E ''/edit'' ''POST'' (JObj [(''itemId'', taskId), (''done'', JBool True)]) of
        Inl e \<Rightarrow> Inl e
      | Inr r \<Rightarrow> Inr (createResponse E True
                       (''Marked task '' @ to_string (rt E) taskId @ '' as completed'') None))"
  by (simp add: markTaskDone_def split: sum.splits)

lemma run_items_markTaskDone:
  "fst (run_items (markTaskDone E) c' xs) = map (\<lambda>x. fst (markTaskDone E c x)) xs"
proof (induction xs arbitrary: c')
  case Nil
  then show ?case by simp
next
  case (Cons x xs)
  obtain r w1 where step: "markTaskDone E c' x = (r, w1)" by (cases "markTaskDone E c' x")
  obtain rs w2 where rest: "run_items (markTaskDone E) w1 xs = (rs, w2)"
    by (cases "run_items (markTaskDone E) w1 xs")
  have r: "r = fst (markTaskDone E c x)"
    using step markTaskDone_fst [of E c' x] markTaskDone_fst [of E c x] by simp
  have "rs = map (\<lambda>x. fst (markTaskDone E c x)) xs"
    using Cons.IH [of w1] rest by simp
  then show ?case by (simp add: step rest r)
qed

lemma createTask_data_not_null:
  "fst (createTask E c taskData) = Inr v \<Longrightarrow> data v \<noteq> JNull"
  by (auto simp: createTask_def createResponse_def split: sum.splits prod.splits)

lemma run_createTask_not_null:
  "Inr v \<in> set (fst (run_items (createTask E) c xs)) \<Longrightarrow> data v \<noteq> JNull"
proof (induction xs arbitrary: c)
  case Nil
  then show ?case by simp
next
  case (Cons x xs)
  obtain r w1 where step: "createTask E c x = (r, w1)" by (cases "createTask E c x")
  obtain rs w2 where rest: "run_items (createTask E) w1 xs = (rs, w2)"
    by (cases "run_items (createTask E) w1 xs")
  from Cons.prems step rest have "Inr v = r \<or> Inr v \<in> set rs" by auto
  then show ?case
  proof
    assume "Inr v = r"
    then have "fst (createTask E c x) = Inr v" using step by simp
    then show ?thesis by (rule createTask_data_not_null)
  next
    assume "Inr v \<in> set rs"
    then have "Inr v \<in> set (fst (run_items (createTask E) w1 xs))" using rest by simp
    then show ?thesis by (rule Cons.IH)
  qed
qed

lemma created_tasks_filter:
  assumes "\<And>v. Inr v \<in> set outcomes \<Longrightarrow> data v \<noteq> JNull"
  shows "filter (\<lambda>t. t \<noteq> JNull) (map (\<lambda>r. case r of Inl e \<Rightarrow> JNull | Inr result \<Rightarrow> data result) outcomes)
           = map (\<lambda>r. data (projr r)) (filter (\<lambda>r. \<not> isl r) outcomes)"
  using assms
proof (induction outcomes)
  case Nil
  then show ?case by simp
next
  case (Cons a outcomes)
  then show ?case by (cases a) auto
qed

text \<open>
  What the two batch operations report, in terms of the outcomes of the calls they make.
\<close>

lemma batch_reports_outcomes:
  "length (fst (run_items (markTaskDone E) c taskIds)) = length taskIds
   \<and> data (fst (batchMarkDone E c taskIds))
       = map (\<lambda>r. \<not> isl r) (fst (run_items (markTaskDone E) c taskIds))
   \<and> length (filter (\<lambda>b. b) (data (fst (batchMarkDone E c taskIds))))
       = length taskIds - length (filter isl (fst (run_items (markTaskDone E) c taskIds)))
   \<and> length (filter (\<lambda>b. \<not> b) (data (fst (batchMarkDone E c taskIds))))
       = length (filter isl (fst (run_items (markTaskDone E) c taskIds)))
   \<and> message (fst (batchMarkDone E c taskIds))
       = ''Marked ''
         @ show_nat (length taskIds - length (filter isl (fst (run_items (markTaskDone E) c taskIds))))
         @ ''/'' @ show_nat (length taskIds) @ '' tasks as completed''
   \<and> length (fst (run_items (createTask E) c tasksData)) = length tasksData
   \<and> data (fst (batchCreateTasks E c tasksData))
       = map (\<lambda>r. data (projr r)) (filter (\<lambda>r. \<not> isl r) (fst (run_items (createTask E) c tasksData)))
   \<and> length (data (fst (batchCreateTasks E c tasksData)))
       = length tasksData - length (filter isl (fst (run_items (createTask E) c tasksData)))
   \<and> JNull \<notin> set (data (fst (batchCreateTasks E c tasksData)))
   \<and> message (fst (batchCreateTasks E c tasksData))
       = ''Created ''
         @ show_nat (length tasksData - length (filter isl (fst (run_items (createTask E) c tasksData))))
         @ ''/'' @ show_nat (length tasksData) @ '' tasks''"
proof -
  obtain done' c1 where run1: "run_items (markTaskDone E) c taskIds = (done', c1)"
    by (cases "run_items (markTaskDone E) c taskIds")
  obtain made c2 where run2: "run_items (createTask E) c tasksData = (made, c2)"
    by (cases "run_items (createTask E) c tasksData")
  have n1: "length done' = length taskIds"
    using run_items_length [of "markTaskDone E" c taskIds] run1 by simp
  have n2: "length made = length tasksData"
    using run_items_length [of "createTask E" c tasksData] run2 by simp
  have flags: "(\<lambda>r. case r of Inl e \<Rightarrow> False | Inr v \<Rightarrow> True) = (\<lambda>r::thrown + bool StandardResponse. \<not> isl r)"
    by (auto simp: fun_eq_iff split: sum.splits)
  have d1: "data (fst (batchMarkDone E c taskIds)) = map (\<lambda>r. \<not> isl r) done'"
    by (simp add: batchMarkDone_def run1 createResponse_def Let_def flags)
  have t1: "length (filter (\<lambda>b. b) (map (\<lambda>r. \<not> isl r) done')) = length taskIds - length (filter isl done')"
    using length_filter_split [of isl done'] n1 by (simp add: filter_map comp_def)
  have f1: "length (filter (\<lambda>b. \<not> b) (map (\<lambda>r. \<not> isl r) done')) = length (filter isl done')"
    by (simp add: filter_map comp_def)
  have m1: "message (fst (batchMarkDone E c taskIds))
       = ''Marked '' @ show_nat (length taskIds - length (filter isl done'))
         @ ''/'' @ show_nat (length taskIds) @ '' tasks as completed''"
    using t1 by (simp add: batchMarkDone_def run1 createResponse_def Let_def flags)
  have not_null: "\<And>v. Inr v \<in> set made \<Longrightarrow> data v \<noteq> JNull"
    using run_createTask_not_null [of _ E c tasksData] run2 by simp
  have kept: "filter (\<lambda>t. t \<noteq> JNull)
                (map (\<lambda>r. case r of Inl e \<Rightarrow> JNull | Inr result \<Rightarrow> data result) made)
              = map (\<lambda>r. data (projr r)) (filter (\<lambda>r. \<not> isl r) made)"
    using not_null by (rule created_tasks_filter)
  have d2: "data (fst (batchCreateTasks E c tasksData))
              = map (\<lambda>r. data (projr r)) (filter (\<lambda>r. \<not> isl r) made)"
    using kept by (simp add: batchCreateTasks_def run2 createResponse_def Let_def del: filter_map)
  have l2: "length (map (\<lambda>r. data (projr r)) (filter (\<lambda>r. \<not> isl r) made))
              = length tasksData - length (filter isl made)"
    using length_filter_split [of isl made] n2 by simp
  have nn: "JNull \<notin> set (map (\<lambda>r. data (projr r)) (filter (\<lambda>r. \<not> isl r) made))"
    unfolding kept [symmetric] by simp
  have len_kept: "length (filter (\<lambda>t. t \<noteq> JNull)
                (map (\<lambda>r. case r of Inl e \<Rightarrow> JNull | Inr result \<Rightarrow> data result) made))
              = length tasksData - length (filter isl made)"
    unfolding kept by (rule l2)
  have m2: "message (fst (batchCreateTasks E c tasksData))
       = ''Created '' @ show_nat (length tasksData - length (filter isl made))
         @ ''/'' @ show_nat (length tasksData) @ '' tasks''"
    using len_kept by (simp add: batchCreateTasks_def run2 createResponse_def Let_def del: filter_map)
  show ?thesis
    using n1 n2 d1 t1 f1 m1 d2 l2 nn m2 by (simp add: run1 run2)
qed

text \<open>
  C6, as the code has it. Both batch operations call the single operation on every item,
  whatever fails, and an item fails in the batch exactly when the single operation fails on
  it (for \<open>markTaskDone\<close>: when the upstream API refuses the edit). With \<open>N\<close> items of
  which \<open>M\<close> fail, \<open>batchMarkDone\<close> answers with \<open>N\<close> booleans in the order of the items,
  true where the item succeeded: \<open>N - M\<close> are true and \<open>M\<close> false, and the message reads
  \<open>Marked N-M/N tasks as completed\<close>. \<open>batchCreateTasks\<close> answers with the tasks of the
  \<open>N - M\<close> items that succeed, in the order of their items, and the message
  \<open>Created N-M/N tasks\<close>; the failed items have no entry in its response.
\<close>

theorem batch_partial_failure:
  "data (fst (batchMarkDone E c taskIds))
       = map (\<lambda>taskId. \<not> isl (fst (markTaskDone E c taskId))) taskIds
   \<and> isl (fst (markTaskDone E c taskId))
       = isl (makeRequest E ''/edit'' ''POST'' (JObj [(''itemId'', taskId), (''done'', JBool True)]))
   \<and> length (data (fst (batchMarkDone E c taskIds))) = length taskIds
   \<and> length (filter (\<lambda>b. b) (data (fst (batchMarkDone E c taskIds))))
       = length taskIds - length (filter (\<lambda>taskId. isl (fst (markTaskDone E c taskId))) taskIds)
   \<and> length (filter (\<lambda>b. \<not> b) (data (fst (batchMarkDone E c taskIds))))
       = length (filter (\<lambda>taskId. isl (fst (markTaskDone E c taskId))) taskIds)
   \<and> message (fst (batchMarkDone E c taskIds))
       = ''Marked ''
         @ show_nat (length taskIds
                      - length (filter (\<lambda>taskId. isl (fst (markTaskDone E c taskId))) taskIds))
         @ ''/'' @ show_nat (length taskIds) @ '' tasks as completed''
   \<and> data (fst (batchCreateTasks E c tasksData))
       = map (\<lambda>taskData. data (projr (fst (createTask E c taskData))))
           (filter (\<lambda>taskData. \<not> isl (fst (createTask E c taskData))) tasksData)
   \<and> length (data (fst (batchCreateTasks E c tasksData)))
       = length tasksData - length (filter (\<lambda>taskData. isl (fst (createTask E c taskData))) tasksData)
   \<and> JNull \<notin> set (data (fst (batchCreateTasks E c tasksData)))
   \<and> message (fst (batchCreateTasks E c tasksData))
       = ''Created ''
         @ show_nat (length tasksData
                      - length (filter (\<lambda>taskData. isl (fst (createTask E c taskData))) tasksData))
         @ ''/'' @ show_nat (length tasksData) @ '' tasks''"
proof -
  have marked: "fst (run_items (markTaskDone E) c taskIds)
                  = map (\<lambda>taskId. fst (markTaskDone E c taskId)) taskIds"
    by (rule run_items_markTaskDone)
  have created: "fst (run_items (createTask E) c tasksData)
                   = map (\<lambda>taskData. fst (createTask E c taskData)) tasksData"
    by (rule run_items_createTask) (rule refl)+
  have count1: "length (filter isl (map (\<lambda>taskId. fst (markTaskDone E c taskId)) taskIds))
                  = length (filter (\<lambda>taskId. isl (fst (markTaskDone E c taskId))) taskIds)"
    by (simp add: filter_map comp_def)
  have count2: "length (filter isl (map (\<lambda>taskData. fst (createTask E c taskData)) tasksData))
                  = length (filter (\<lambda>taskData. isl (fst (createTask E c taskData))) tasksData)"
    by (simp add: filter_map comp_def)
  have flags: "map (\<lambda>r. \<not> isl r) (map (\<lambda>taskId. fst (markTaskDone E c taskId)) taskIds)
                 = map (\<lambda>taskId. \<not> isl (fst (markTaskDone E c taskId))) taskIds"
    by simp
  have tasks: "map (\<lambda>r. data (projr r))
                 (filter (\<lambda>r. \<not> isl r) (map (\<lambda>taskData. fst (createTask E c taskData)) tasksData))
               = map (\<lambda>taskData. data (projr (fst (createTask E c taskData))))
                   (filter (\<lambda>taskData. \<not> isl (fst (createTask E c taskData))) tasksData)"
    by (simp add: filter_map comp_def)
  have upstream: "isl (fst (markTaskDone E c taskId))
       = isl (makeRequest E ''/edit'' ''POST'' (JObj [(''itemId'', taskId), (''done'', JBool True)]))"
    by (simp add: markTaskDone_fst split: sum.splits)
  note reported = batch_reports_outcomes [of E c taskIds tasksData, unfolded marked created count1 count2 flags tasks]
  note flags_reported = reported [THEN conjunct2, THEN conjunct1]
  have size: "length (data (fst (batchMarkDone E c taskIds))) = length taskIds"
    by (simp add: flags_reported)
  show ?thesis
    by (intro conjI)
      (rule flags_reported upstream size
         reported [THEN conjunct2, THEN conjunct2, THEN conjunct1]
         reported [THEN conjunct2, THEN conjunct2, THEN conjunct2, THEN conjunct1]
         reported [THEN conjunct2, THEN conjunct2, THEN conjunct2, THEN conjunct2, THEN conjunct1]
         reported [THEN conjunct2, THEN conjunct2, THEN conjunct2, THEN conjunct2, THEN conjunct2, THEN conjunct2, THEN conjunct1]
         reported [THEN conjunct2, THEN conjunct2, THEN conjunct2, THEN conjunct2, THEN conjunct2, THEN conjunct2, THEN conjunct2, THEN conjunct1]
         reported [THEN conjunct2, THEN conjunct2, THEN conjunct2, THEN conjunct2, THEN conjunct2, THEN conjunct2, THEN conjunct2, THEN conjunct2, THEN conjunct1]
         reported [THEN conjunct2, THEN conjunct2, THEN conjunct2, THEN conjunct2, THEN conjunct2, THEN conjunct2, THEN conjunct2, THEN conjunct2, THEN conjunct2])+
qed

lemmas api_run_defs =
  batchMarkDone_def batchCreateTasks_def markTaskDone_def createTask_def getProjects_def
  getCategories_def getLabels_def getCachedOrFetch_def invalidateCache_def createResponse_def
  demo_api_def demo_cache_def kv_get_def kv_put_def kv_delete_def CACHE_TTL_def T0_def Let_def

theorem batch_partial_failure_witness:
  "data (fst (batchMarkDone demo_api demo_cache [JStr ''bad-id'', JStr ''ok-id'', JStr ''bad-id'']))
     = [False, True, False]
   \<and> message (fst (batchMarkDone demo_api demo_cache [JStr ''bad-id'', JStr ''ok-id'', JStr ''bad-id'']))
       = ''Marked 1/3 tasks as completed''
   \<and> data (fst (batchCreateTasks demo_api demo_cache
                 [JObj [(''title'', JStr ''b'')], JObj [(''title'', JStr ''a'')]]))
       = [JObj [(''id'', JStr ''t1''), (''title'', JStr ''a''), (''labels'', JArr [])]]
   \<and> message (fst (batchCreateTasks demo_api demo_cache
                 [JObj [(''title'', JStr ''b'')], JObj [(''title'', JStr ''a'')]]))
       = ''Created 1/2 tasks''"
proof -
  let ?ids = "[JStr ''bad-id'', JStr ''ok-id'', JStr ''bad-id'']"
  let ?specs = "[JObj [(''title'', JStr ''b'')], JObj [(''title'', JStr ''a'')]]"
  note run = batch_partial_failure
    [where E = demo_api and c = demo_cache and taskIds = ?ids and tasksData = ?specs]
  have bad: "isl (fst (markTaskDone demo_api demo_cache (JStr ''bad-id'')))"
    and ok: "\<not> isl (fst (markTaskDone demo_api demo_cache (JStr ''ok-id'')))"
    by (simp_all add: markTaskDone_def demo_api_def)
  have refused: "isl (fst (createTask demo_api demo_cache (JObj [(''title'', JStr ''b'')])))"
    by (simp add: createTask_def demo_api_def)
  have made: "fst (createTask demo_api demo_cache (JObj [(''title'', JStr ''a'')]))
      = Inr (createResponse demo_api
               (JObj [(''id'', JStr ''t1''), (''title'', JStr ''a''), (''labels'', JArr [])])
               (''Created task: '' @ to_string (rt demo_api) (JStr ''a'')) None)"
    by (simp add: api_run_defs)
  have digits: "show_nat 1 = ''1''" "show_nat 2 = ''2''" "show_nat 3 = ''3''"
    by code_simp+
  have d1: "data (fst (batchMarkDone demo_api demo_cache ?ids)) = [False, True, False]"
    using run bad ok by simp
  have "message (fst (batchMarkDone demo_api demo_cache ?ids))
          = ''Marked '' @ show_nat (length ?ids
                - length (filter (\<lambda>taskId. isl (fst (markTaskDone demo_api demo_cache taskId))) ?ids))
            @ ''/'' @ show_nat (length ?ids) @ '' tasks as completed''"
    using run by (simp only:)
  moreover have "length ?ids
                - length (filter (\<lambda>taskId. isl (fst (markTaskDone demo_api demo_cache taskId))) ?ids) = 1"
    using bad ok by simp
  moreover have "length ?ids = 3" by simp
  ultimately have m1: "message (fst (batchMarkDone demo_api demo_cache ?ids))
          = ''Marked '' @ ''1'' @ ''/'' @ ''3'' @ '' tasks as completed''"
    by (simp only: digits)
  have d2: "data (fst (batchCreateTasks demo_api demo_cache ?specs))
       = [JObj [(''id'', JStr ''t1''), (''title'', JStr ''a''), (''labels'', JArr [])]]"
    using run refused by (simp add: made createResponse_def)
  have "message (fst (batchCreateTasks demo_api demo_cache ?specs))
          = ''Created '' @ show_nat (length ?specs
                - length (filter (\<lambda>taskData. isl (fst (createTask demo_api demo_cache taskData))) ?specs))
            @ ''/'' @ show_nat (length ?specs) @ '' tasks''"
    using run by (simp only:)
  moreover have "length ?specs
                - length (filter (\<lambda>taskData. isl (fst (createTask demo_api demo_cache taskData))) ?specs) = 1"
    using refused by (simp add: made)
  moreover have "length ?specs = 2" by simp
  ultimately have m2: "message (fst (batchCreateTasks demo_api demo_cache ?specs))
          = ''Created '' @ ''1'' @ ''/'' @ ''2'' @ '' tasks''"
    by (simp only: digits)
  show ?thesis
    using d1 m1 d2 m2 by simp
qed

text \<open>
  C6 as stated fails for \<open>batch_create_tasks\<close>: of two task specifications the first
  fails and the second is created, and the response holds the one created task and nothing
  for the failed item.
\<close>

theorem batch_partial_failure_counterexample:
  "isl (fst (createTask demo_api demo_cache (JObj [(''title'', JStr ''b'')])))
   \<and> \<not> isl (fst (createTask demo_api demo_cache (JObj [(''title'', JStr ''a'')])))
   \<and> data (fst (batchCreateTasks demo_api demo_cache
             [JObj [(''title'', JStr ''b'')], JObj [(''title'', JStr ''a'')]]))
       = [JObj [(''id'', JStr ''t1''), (''title'', JStr ''a''), (''labels'', JArr [])]]"
  by (simp add: api_run_defs)

end
